theory Spec2Isabelle
  imports Main "HOL-Library.Word" "HOL-Library.AList"
begin

section \<open>Embedded terminal support for plugin editors: a shallow embedding\<close>

text \<open>
  The development follows the C++ sources file by file:
  \<^item> \<^verbatim>\<open>embedded-terminal-linux.cpp\<close>, \<^verbatim>\<open>embedded-terminal-windows.cpp\<close> and the fallback
    at the end of \<^verbatim>\<open>embedded-terminal.cpp\<close>: the platform backends;
  \<^item> \<^verbatim>\<open>embedded-terminal.cpp\<close>: the registry class \<^verbatim>\<open>embedded_terminal\<close>;
  \<^item> \<^verbatim>\<open>ftxui-clap-editor.h\<close>: the editor base class and its default hooks;
  \<^item> \<^verbatim>\<open>ftxui-clap-support.cpp\<close>: the global state, the render loop and the C API.

  Conventions.
  \<^item> Pointers and native handles are natural numbers, \<open>0\<close> being \<^verbatim>\<open>nullptr\<close>.
  \<^item> C++ \<^verbatim>\<open>int\<close> is modelled by \<open>int\<close>, with division written as the truncating division
    of C++. The products \<^verbatim>\<open>cols * 8\<close> and \<^verbatim>\<open>rows * 16\<close> of the stored size can leave the
    range of a 32-bit \<^verbatim>\<open>int\<close> when an editor's own hooks store a huge size; they are
    wrapped to 32 bits (\<open>int32_wrap\<close>), which is what the compiled code yields although
    the language leaves it undefined. The baseline that the Linux renderer advances
    line by line is not wrapped: it stays within one character height of the window
    height, or, for a font without positive height, moves away from it only by the
    number of lines times that height.
  \<^item> The model is sequential: every function of the source runs under the mutex of the
    data it touches, so each one is an atomic step, and the mutexes themselves are
    not modelled.
  \<^item> Calls into the native window system are recorded, in order, in a trace; what the
    native system answers is taken from an \<open>environment\<close> argument.
  \<^item> The virtual hooks of an editor that only have effects (\<^verbatim>\<open>onGuiCreate\<close>,
    \<^verbatim>\<open>onGuiDestroy\<close>, \<^verbatim>\<open>onParameterUpdate\<close>) are recorded, in order, in a second trace;
    a hook that re-enters the library is outside the model.
\<close>

subsection \<open>Editor identifiers\<close>

text \<open>
  \<^verbatim>\<open>std::to_string(reinterpret_cast<uintptr_t>(editor))\<close>: the decimal digits of the
  address.
\<close>

definition digit_char :: "nat \<Rightarrow> char" where
  "digit_char d = ''0123456789'' ! d"

fun to_string :: "nat \<Rightarrow> string" where
  "to_string n =
     (if n < 10 then [digit_char n] else to_string (n div 10) @ [digit_char (n mod 10)])"

declare to_string.simps [simp del]

definition editor_id :: "nat \<Rightarrow> string" where
  "editor_id editor = to_string editor"

text \<open>Reading the digits back, used to show that distinct editors have distinct identifiers.\<close>

definition digit_val :: "char \<Rightarrow> nat" where
  "digit_val c = of_char c - 48"

definition from_string :: "string \<Rightarrow> nat" where
  "from_string cs = foldl (\<lambda>a c. 10 * a + digit_val c) 0 cs"

subsection \<open>The native window system: calls and answers\<close>

text \<open>
  The trace records the calls that open or close the connection, and that create, map,
  resize, draw into or destroy a window. Calls that only allocate or free drawing
  resources (graphics contexts, fonts, colours, brushes) are not recorded; whether they
  succeed is read from the environment.
\<close>

datatype native_call =
    XOpenDisplay
  | XSetErrorHandler
  | XCloseDisplay
  | XCreateSimpleWindow nat int int int int
  | XSelectInput nat
  | XMapWindow nat
  | XUnmapWindow nat
  | XResizeWindow nat int int
  | XDestroyWindow nat
  | XFillRectangle nat int int int int
  | XftDrawStringUtf8 nat int int string
  | XFlush
  | RegisterClassEx
  | UnregisterClass
  | CreateWindowEx nat int int int int
  | DestroyWindow nat
  | SetWindowPos nat int int
  | ShowWindow nat bool
  | InvalidateRect nat
  | BeginDraw nat
  | Clear nat
  | DrawTextLayout nat int int string
  | EndDraw nat
  | RenderTargetResize nat int int

text \<open>
  What the native system answers. A font is given by the advance \<^verbatim>\<open>xOff\<close> of the glyph
  "M" and its \<^verbatim>\<open>height\<close>.
\<close>

record environment =
  XOpenDisplay_ok :: bool
  DefaultRootWindow :: nat
  XCreateSimpleWindow_result :: nat
  XGetWindowAttributes_result :: "(int \<times> int) option"
  XCreateGC_ok :: bool
  XftDrawCreate_ok :: bool
  XftFontOpenName :: "string \<Rightarrow> (int \<times> int) option"
  RegisterClassEx_ok :: bool
  CreateWindowEx_result :: nat
  D2D1CreateFactory_ok :: bool
  DWriteCreateFactory_ok :: bool
  CreateTextFormat_ok :: "string \<Rightarrow> bool"
  CreateHwndRenderTarget_ok :: bool
  CreateSolidColorBrush_ok :: "string \<Rightarrow> bool"
  MultiByteToWideChar_ok :: bool
  CreateTextLayout_ok :: bool
  thread_start_ok :: bool

datatype target = Linux | Windows | Unsupported


subsection \<open>The X11/Xft renderer\<close>

text \<open>
  \<^verbatim>\<open>LinuxTerminalRenderer\<close>; the member \<^verbatim>\<open>width_\<close> is the field \<open>lr_width\<close>, and so on. The
  pointers \<^verbatim>\<open>xft_draw_\<close>, \<^verbatim>\<open>font_\<close> and \<^verbatim>\<open>gc_\<close> are only ever tested against null, so each is
  a boolean: true when set.
\<close>

record LinuxTerminalRenderer =
  lr_window :: nat
  lr_xft_draw :: bool
  lr_font :: bool
  lr_gc :: bool
  lr_char_width :: int
  lr_char_height :: int
  lr_width :: int
  lr_height :: int

definition LinuxTerminalRenderer_new :: "nat \<Rightarrow> LinuxTerminalRenderer" where
  "LinuxTerminalRenderer_new window =
     \<lparr>lr_window = window, lr_xft_draw = False, lr_font = False, lr_gc = False,
      lr_char_width = 8, lr_char_height = 16, lr_width = 0, lr_height = 0\<rparr>"

text \<open>The font fallback chain of \<^verbatim>\<open>initialize\<close>: monospace-12, then fixed-12, then fixed.\<close>

definition open_font :: "environment \<Rightarrow> (int \<times> int) option" where
  "open_font env =
     (case XftFontOpenName env ''monospace-12'' of
        Some f \<Rightarrow> Some f
      | None \<Rightarrow>
          (case XftFontOpenName env ''fixed-12'' of
             Some f \<Rightarrow> Some f
           | None \<Rightarrow> XftFontOpenName env ''fixed''))"

definition LinuxTerminalRenderer_initialize ::
  "environment \<Rightarrow> LinuxTerminalRenderer \<Rightarrow> bool \<times> LinuxTerminalRenderer" where
  "LinuxTerminalRenderer_initialize env r =
     (case XGetWindowAttributes_result env of
        None \<Rightarrow> (False, r)
      | Some (w, h) \<Rightarrow>
          (let r1 = r\<lparr>lr_width := w, lr_height := h\<rparr> in
           if \<not> XCreateGC_ok env then (False, r1)
           else
             (let r2 = r1\<lparr>lr_gc := True\<rparr> in
              if \<not> XftDrawCreate_ok env then (False, r2)
              else
                (let r3 = r2\<lparr>lr_xft_draw := True\<rparr> in
                 case open_font env of
                   None \<Rightarrow> (False, r3)
                 | Some (xOff, fheight) \<Rightarrow>
                     (True, r3\<lparr>lr_font := True, lr_char_width := xOff,
                                lr_char_height := fheight\<rparr>)))))"

text \<open>
  \<^verbatim>\<open>parse_terminal_content\<close>: the \<^verbatim>\<open>std::getline\<close> loop. \<open>getlines cs line\<close> reads the rest
  \<open>cs\<close> of the stream with \<open>line\<close> the characters of the current line read so far. At
  the end of the stream a line is delivered only if at least one character was
  extracted for it, so a final line break opens no further, empty line.
\<close>

fun getlines :: "string \<Rightarrow> string \<Rightarrow> string list" where
  "getlines [] line = (if line = [] then [] else [line])"
| "getlines (c # cs) line =
     (if c = CHR 0x0A then line # getlines cs [] else getlines cs (line @ [c]))"

definition parse_terminal_content :: "string \<Rightarrow> string list" where
  "parse_terminal_content content = getlines content []"

text \<open>
  The loop of \<^verbatim>\<open>render\<close> over the lines, \<open>y_offset\<close> being the baseline of the next line:
  it stops at the first line whose baseline is below the window, draws a line that is
  not empty with a left margin of 5 pixels, and advances by the character height.
\<close>

fun render_lines :: "LinuxTerminalRenderer \<Rightarrow> int \<Rightarrow> string list \<Rightarrow> native_call list" where
  "render_lines r y_offset [] = []"
| "render_lines r y_offset (line # lines) =
     (if y_offset > lr_height r then []
      else (if line \<noteq> [] then [XftDrawStringUtf8 (lr_window r) 5 y_offset line] else [])
           @ render_lines r (y_offset + lr_char_height r) lines)"

definition LinuxTerminalRenderer_render ::
  "LinuxTerminalRenderer \<Rightarrow> string \<Rightarrow> native_call list" where
  "LinuxTerminalRenderer_render r content =
     (if \<not> lr_xft_draw r \<or> \<not> lr_font r then []
      else [XFillRectangle (lr_window r) 0 0 (lr_width r) (lr_height r)]
           @ render_lines r (lr_char_height r) (parse_terminal_content content)
           @ [XFlush])"

definition LinuxTerminalRenderer_resize ::
  "LinuxTerminalRenderer \<Rightarrow> int \<Rightarrow> int \<Rightarrow> LinuxTerminalRenderer" where
  "LinuxTerminalRenderer_resize r width height = r\<lparr>lr_width := width, lr_height := height\<rparr>"

subsection \<open>The Direct2D/DirectWrite renderer\<close>

text \<open>
  \<^verbatim>\<open>WindowsTerminalRenderer\<close>; the member \<^verbatim>\<open>hwnd_\<close> is the field \<open>wr_hwnd\<close>, and so on. The
  COM pointers are booleans as above. The fields
  \<^verbatim>\<open>char_width_\<close> and \<^verbatim>\<open>char_height_\<close> are floating point numbers that are written once
  and never read; they are left out.
\<close>

record WindowsTerminalRenderer =
  wr_hwnd :: nat
  wr_d2d_factory :: bool
  wr_dwrite_factory :: bool
  wr_text_format :: bool
  wr_render_target :: bool
  wr_text_brush :: bool
  wr_background_brush :: bool

definition WindowsTerminalRenderer_new :: "nat \<Rightarrow> WindowsTerminalRenderer" where
  "WindowsTerminalRenderer_new hwnd =
     \<lparr>wr_hwnd = hwnd, wr_d2d_factory = False, wr_dwrite_factory = False, wr_text_format = False,
      wr_render_target = False, wr_text_brush = False, wr_background_brush = False\<rparr>"

definition WindowsTerminalRenderer_initialize ::
  "environment \<Rightarrow> WindowsTerminalRenderer \<Rightarrow> bool \<times> WindowsTerminalRenderer" where
  "WindowsTerminalRenderer_initialize env r =
     (if \<not> D2D1CreateFactory_ok env then (False, r)
      else
        (let r1 = r\<lparr>wr_d2d_factory := True\<rparr> in
         if \<not> DWriteCreateFactory_ok env then (False, r1)
         else
           (let r2 = r1\<lparr>wr_dwrite_factory := True\<rparr> in
            if \<not> CreateTextFormat_ok env ''Consolas''
               \<and> \<not> CreateTextFormat_ok env ''Courier New'' then (False, r2)
            else
              (let r3 = r2\<lparr>wr_text_format := True\<rparr> in
               if \<not> CreateHwndRenderTarget_ok env then (False, r3)
               else
                 (let r4 = r3\<lparr>wr_render_target := True\<rparr> in
                  if \<not> CreateSolidColorBrush_ok env ''White'' then (False, r4)
                  else
                    (let r5 = r4\<lparr>wr_text_brush := True\<rparr> in
                     if \<not> CreateSolidColorBrush_ok env ''Black'' then (False, r5)
                     else (True, r5\<lparr>wr_background_brush := True\<rparr>)))))))"

text \<open>
  \<^verbatim>\<open>render\<close>: the whole content is handed to one text layout of 1000 by 1000 units, drawn
  at (5, 5). \<^verbatim>\<open>MultiByteToWideChar\<close> is given \<^verbatim>\<open>content.c_str()\<close> with length -1, so it reads
  up to the first NUL character. The text is kept as the bytes that were converted.
\<close>

definition c_str :: "string \<Rightarrow> string" where
  "c_str content = takeWhile (\<lambda>c. c \<noteq> CHR 0x00) content"

definition WindowsTerminalRenderer_render ::
  "environment \<Rightarrow> WindowsTerminalRenderer \<Rightarrow> string \<Rightarrow> native_call list" where
  "WindowsTerminalRenderer_render env r content =
     (if \<not> wr_render_target r then []
      else [BeginDraw (wr_hwnd r), Clear (wr_hwnd r)]
           @ (if MultiByteToWideChar_ok env \<and> CreateTextLayout_ok env
              then [DrawTextLayout (wr_hwnd r) 5 5 (c_str content)] else [])
           @ [EndDraw (wr_hwnd r)])"

definition WindowsTerminalRenderer_resize ::
  "WindowsTerminalRenderer \<Rightarrow> int \<Rightarrow> int \<Rightarrow> native_call list" where
  "WindowsTerminalRenderer_resize r width height =
     (if wr_render_target r then [RenderTargetResize (wr_hwnd r) width height] else [])"


subsection \<open>The platform backends\<close>

text \<open>
  The statics of the backend files and the trace of native calls. \<open>g_display\<close> is true
  when the \<^verbatim>\<open>Display*\<close> is set (Linux); \<open>g_class_registered\<close> is the flag of the Windows
  file. \<open>g_renderers\<close> exists once in each backend file; here it is one map whose values say
  which renderer class they belong to.
\<close>

datatype renderer =
    LinuxRenderer LinuxTerminalRenderer
  | WindowsRenderer WindowsTerminalRenderer

record platform =
  g_display :: bool
  g_class_registered :: bool
  g_renderers :: "nat \<rightharpoonup> renderer"
  native :: "native_call list"

definition call :: "native_call list \<Rightarrow> platform \<Rightarrow> platform" where
  "call cs p = p\<lparr>native := native p @ cs\<rparr>"

text \<open>\<^verbatim>\<open>embedded_terminal::editor_window\<close>.\<close>

record editor_window =
  content :: string
  platform_handle :: nat
  width :: int
  height :: int
  visible :: bool

definition platform_initialize :: "target \<Rightarrow> environment \<Rightarrow> platform \<Rightarrow> bool \<times> platform" where
  "platform_initialize tgt env p =
     (case tgt of
        Linux \<Rightarrow>
          (if \<not> g_display p then
             (if \<not> XOpenDisplay_ok env then (False, call [XOpenDisplay] p)
              else (True, call [XOpenDisplay, XSetErrorHandler] (p\<lparr>g_display := True\<rparr>)))
           else (True, p))
      | Windows \<Rightarrow>
          (if \<not> g_class_registered p then
             (if \<not> RegisterClassEx_ok env then (False, call [RegisterClassEx] p)
              else (True, call [RegisterClassEx] (p\<lparr>g_class_registered := True\<rparr>)))
           else (True, p))
      | Unsupported \<Rightarrow> (False, p))"

definition platform_shutdown :: "target \<Rightarrow> platform \<Rightarrow> platform" where
  "platform_shutdown tgt p =
     (case tgt of
        Linux \<Rightarrow>
          (let p1 = p\<lparr>g_renderers := Map.empty\<rparr> in
           if g_display p1 then call [XCloseDisplay] (p1\<lparr>g_display := False\<rparr>) else p1)
      | Windows \<Rightarrow>
          (let p1 = p\<lparr>g_renderers := Map.empty\<rparr> in
           if g_class_registered p1
           then call [UnregisterClass] (p1\<lparr>g_class_registered := False\<rparr>) else p1)
      | Unsupported \<Rightarrow> p)"

text \<open>
  \<^verbatim>\<open>platform_create_window\<close>. On Linux a null parent is replaced by the default root
  window of the display; on Windows a null parent is refused before any window is
  created.
\<close>

definition platform_create_window ::
  "target \<Rightarrow> environment \<Rightarrow> editor_window \<Rightarrow> nat \<Rightarrow> int \<Rightarrow> int \<Rightarrow> int \<Rightarrow> int \<Rightarrow> platform
   \<Rightarrow> bool \<times> editor_window \<times> platform" where
  "platform_create_window tgt env window parent_handle x y w h p =
     (case tgt of
        Linux \<Rightarrow>
          (if \<not> g_display p then (False, window, p)
           else
             (let parent_window =
                    (if parent_handle = 0 then DefaultRootWindow env else parent_handle);
                  child_window = XCreateSimpleWindow_result env;
                  p1 = call [XCreateSimpleWindow parent_window x y w h] p
              in
                if child_window = 0 then (False, window, p1)
                else
                  (let p2 = call [XSelectInput child_window, XMapWindow child_window] p1 in
                   case LinuxTerminalRenderer_initialize env
                          (LinuxTerminalRenderer_new child_window) of
                     (False, _) \<Rightarrow> (False, window, call [XDestroyWindow child_window] p2)
                   | (True, r) \<Rightarrow>
                       (True, window\<lparr>platform_handle := child_window\<rparr>,
                        call [XFlush]
                          (p2\<lparr>g_renderers :=
                                (g_renderers p2)(child_window \<mapsto> LinuxRenderer r)\<rparr>)))))
      | Windows \<Rightarrow>
          (if parent_handle = 0 then (False, window, p)
           else
             (let child_hwnd = CreateWindowEx_result env;
                  p1 = call [CreateWindowEx parent_handle x y w h] p
              in
                if child_hwnd = 0 then (False, window, p1)
                else
                  (case WindowsTerminalRenderer_initialize env
                          (WindowsTerminalRenderer_new child_hwnd) of
                     (False, _) \<Rightarrow> (False, window, call [DestroyWindow child_hwnd] p1)
                   | (True, r) \<Rightarrow>
                       (True, window\<lparr>platform_handle := child_hwnd\<rparr>,
                        p1\<lparr>g_renderers :=
                              (g_renderers p1)(child_hwnd \<mapsto> WindowsRenderer r)\<rparr>))))
      | Unsupported \<Rightarrow> (False, window, p))"

definition platform_update_window ::
  "target \<Rightarrow> environment \<Rightarrow> editor_window \<Rightarrow> platform \<Rightarrow> platform" where
  "platform_update_window tgt env window p =
     (case tgt of
        Linux \<Rightarrow>
          (case g_renderers p (platform_handle window) of
             Some (LinuxRenderer r) \<Rightarrow> call (LinuxTerminalRenderer_render r (content window)) p
           | _ \<Rightarrow> p)
      | Windows \<Rightarrow>
          (case g_renderers p (platform_handle window) of
             Some (WindowsRenderer r) \<Rightarrow>
               call (WindowsTerminalRenderer_render env r (content window)
                     @ [InvalidateRect (platform_handle window)]) p
           | _ \<Rightarrow> p)
      | Unsupported \<Rightarrow> p)"

definition platform_resize_window ::
  "target \<Rightarrow> editor_window \<Rightarrow> int \<Rightarrow> int \<Rightarrow> platform \<Rightarrow> platform" where
  "platform_resize_window tgt window w h p =
     (case tgt of
        Linux \<Rightarrow>
          (if platform_handle window \<noteq> 0 \<and> g_display p then
             (let p1 = call [XResizeWindow (platform_handle window) w h] p;
                  p2 = (case g_renderers p1 (platform_handle window) of
                          Some (LinuxRenderer r) \<Rightarrow>
                            p1\<lparr>g_renderers := (g_renderers p1)(platform_handle window \<mapsto>
                                  LinuxRenderer (LinuxTerminalRenderer_resize r w h))\<rparr>
                        | _ \<Rightarrow> p1)
              in call [XFlush] p2)
           else p)
      | Windows \<Rightarrow>
          (if platform_handle window \<noteq> 0 then
             (let p1 = call [SetWindowPos (platform_handle window) w h] p in
              case g_renderers p1 (platform_handle window) of
                Some (WindowsRenderer r) \<Rightarrow> call (WindowsTerminalRenderer_resize r w h) p1
              | _ \<Rightarrow> p1)
           else p)
      | Unsupported \<Rightarrow> p)"

definition platform_show_window ::
  "target \<Rightarrow> editor_window \<Rightarrow> bool \<Rightarrow> platform \<Rightarrow> platform" where
  "platform_show_window tgt window vis p =
     (case tgt of
        Linux \<Rightarrow>
          (if platform_handle window \<noteq> 0 \<and> g_display p then
             call [if vis then XMapWindow (platform_handle window)
                   else XUnmapWindow (platform_handle window), XFlush] p
           else p)
      | Windows \<Rightarrow>
          (if platform_handle window \<noteq> 0
           then call [ShowWindow (platform_handle window) vis] p else p)
      | Unsupported \<Rightarrow> p)"

definition platform_destroy_window ::
  "target \<Rightarrow> editor_window \<Rightarrow> platform \<Rightarrow> editor_window \<times> platform" where
  "platform_destroy_window tgt window p =
     (case tgt of
        Linux \<Rightarrow>
          (if platform_handle window \<noteq> 0 \<and> g_display p then
             (window\<lparr>platform_handle := 0\<rparr>,
              call [XDestroyWindow (platform_handle window), XFlush]
                (p\<lparr>g_renderers := (g_renderers p)(platform_handle window := None)\<rparr>))
           else (window, p))
      | Windows \<Rightarrow>
          (if platform_handle window \<noteq> 0 then
             (window\<lparr>platform_handle := 0\<rparr>,
              call [DestroyWindow (platform_handle window)]
                (p\<lparr>g_renderers := (g_renderers p)(platform_handle window := None)\<rparr>))
           else (window, p))
      | Unsupported \<Rightarrow> (window, p))"


subsection \<open>The registry: class \<^verbatim>\<open>embedded_terminal\<close>\<close>

text \<open>
  The member \<^verbatim>\<open>editors_\<close> is the field \<open>editors_map\<close>: the windows by editor identifier. It
  is kept as an association list with one entry per key, because \<^verbatim>\<open>shutdown\<close> walks
  through it; the order of that walk is the list's order here and unspecified in the
  source. \<open>map_of\<close> is \<^verbatim>\<open>find\<close>, \<open>AList.update\<close> is \<^verbatim>\<open>editors_[id] = ...\<close> and
  \<open>AList.delete\<close> is \<^verbatim>\<open>erase\<close>.
\<close>

record embedded_terminal =
  editors_map :: "(string \<times> editor_window) list"

definition embedded_terminal_new :: embedded_terminal where
  "embedded_terminal_new = \<lparr>editors_map = []\<rparr>"

definition embedded_terminal_initialize ::
  "target \<Rightarrow> environment \<Rightarrow> platform \<Rightarrow> bool \<times> platform" where
  "embedded_terminal_initialize tgt env p = platform_initialize tgt env p"

fun destroy_windows :: "target \<Rightarrow> (string \<times> editor_window) list \<Rightarrow> platform \<Rightarrow> platform" where
  "destroy_windows tgt [] p = p"
| "destroy_windows tgt ((k, window) # ws) p =
     destroy_windows tgt ws (snd (platform_destroy_window tgt window p))"

text \<open>\<^verbatim>\<open>shutdown\<close>, which is also what the destructor runs.\<close>

definition embedded_terminal_shutdown ::
  "target \<Rightarrow> embedded_terminal \<Rightarrow> platform \<Rightarrow> embedded_terminal \<times> platform" where
  "embedded_terminal_shutdown tgt t p =
     (t\<lparr>editors_map := []\<rparr>, platform_shutdown tgt (destroy_windows tgt (editors_map t) p))"

definition update_content ::
  "target \<Rightarrow> environment \<Rightarrow> string \<Rightarrow> string \<Rightarrow> embedded_terminal \<Rightarrow> platform
   \<Rightarrow> embedded_terminal \<times> platform" where
  "update_content tgt env ident text t p =
     (case map_of (editors_map t) ident of
        None \<Rightarrow> (t, p)
      | Some window \<Rightarrow>
          (let window1 = window\<lparr>content := text\<rparr> in
           (t\<lparr>editors_map := AList.update ident window1 (editors_map t)\<rparr>,
            platform_update_window tgt env window1 p)))"

definition remove_editor ::
  "target \<Rightarrow> string \<Rightarrow> embedded_terminal \<Rightarrow> platform \<Rightarrow> embedded_terminal \<times> platform" where
  "remove_editor tgt ident t p =
     (case map_of (editors_map t) ident of
        None \<Rightarrow> (t, p)
      | Some window \<Rightarrow>
          (t\<lparr>editors_map := AList.delete ident (editors_map t)\<rparr>,
           snd (platform_destroy_window tgt window p)))"

definition create_window ::
  "target \<Rightarrow> environment \<Rightarrow> string \<Rightarrow> nat \<Rightarrow> int \<Rightarrow> int \<Rightarrow> int \<Rightarrow> int \<Rightarrow> embedded_terminal
   \<Rightarrow> platform \<Rightarrow> bool \<times> embedded_terminal \<times> platform" where
  "create_window tgt env ident parent_handle x y w h t p =
     (let window = \<lparr>content = [], platform_handle = 0, width = w, height = h,
                     visible = False\<rparr>
      in case platform_create_window tgt env window parent_handle x y w h p of
           (False, _, p1) \<Rightarrow> (False, t, p1)
         | (True, window1, p1) \<Rightarrow>
             (True, t\<lparr>editors_map := AList.update ident window1 (editors_map t)\<rparr>, p1))"

definition resize_window ::
  "target \<Rightarrow> string \<Rightarrow> int \<Rightarrow> int \<Rightarrow> embedded_terminal \<Rightarrow> platform
   \<Rightarrow> embedded_terminal \<times> platform" where
  "resize_window tgt ident w h t p =
     (case map_of (editors_map t) ident of
        None \<Rightarrow> (t, p)
      | Some window \<Rightarrow>
          (let window1 = window\<lparr>width := w, height := h\<rparr> in
           (t\<lparr>editors_map := AList.update ident window1 (editors_map t)\<rparr>,
            platform_resize_window tgt window1 w h p)))"

definition show_window ::
  "target \<Rightarrow> string \<Rightarrow> bool \<Rightarrow> embedded_terminal \<Rightarrow> platform
   \<Rightarrow> embedded_terminal \<times> platform" where
  "show_window tgt ident vis t p =
     (case map_of (editors_map t) ident of
        None \<Rightarrow> (t, p)
      | Some window \<Rightarrow>
          (let window1 = window\<lparr>visible := vis\<rparr> in
           (t\<lparr>editors_map := AList.update ident window1 (editors_map t)\<rparr>,
            platform_show_window tgt window1 vis p)))"

subsection \<open>Editors and contexts\<close>

text \<open>
  An \<^verbatim>\<open>ftxui::Component\<close> is used through \<^verbatim>\<open>Render\<close> only: with the screen of the requested
  size and \<^verbatim>\<open>ToString\<close> it is a function from columns and rows to the text of the grid.
  \<open>None\<close> is the null component.
\<close>

type_synonym Component = "(int \<Rightarrow> int \<Rightarrow> string) option"

text \<open>\<^verbatim>\<open>FTXUIContext\<close>. The context owns its terminal, so the terminal is a part of it.\<close>

record FTXUIContext =
  editor :: nat
  component :: Component
  terminal :: "embedded_terminal option"
  cols :: int
  rows :: int
  visible :: bool

definition FTXUIContext_new :: "nat \<Rightarrow> FTXUIContext" where
  "FTXUIContext_new ed =
     \<lparr>editor = ed, component = None, terminal = None, cols = 80, rows = 24,
      visible = False\<rparr>"

text \<open>
  \<^verbatim>\<open>ftxui_clap_editor\<close>. The hooks that return something are fields: what
  \<^verbatim>\<open>onCreateComponent\<close> returns, and \<^verbatim>\<open>getPreferredSize\<close> and \<^verbatim>\<open>adjustSize\<close> as functions
  from the values of their reference arguments before the call to those after it (and
  the boolean result). The context is reached through \<^verbatim>\<open>ctx\<close> alone and nothing else
  points to it, so it is a part of the editor; \<open>None\<close> is the null pointer.
\<close>

record ftxui_clap_editor =
  onCreateComponent :: Component
  getPreferredSize :: "int \<Rightarrow> int \<Rightarrow> int \<times> int"
  adjustSize :: "int \<Rightarrow> int \<Rightarrow> bool \<times> int \<times> int"
  ctx :: "FTXUIContext option"

text \<open>
  The size constraints of \<^verbatim>\<open>ftxui_clap_terminal_options\<close> with their default member
  initialisers. No function of the library reads the options; the same four numbers
  are written as literals in \<^verbatim>\<open>adjustSize\<close> and in \<^verbatim>\<open>ftxui_clap_guiSetSizeWith\<close>.
\<close>

record ftxui_clap_terminal_options =
  min_cols :: int
  min_rows :: int
  max_cols :: int
  max_rows :: int

definition default_options :: ftxui_clap_terminal_options where
  "default_options = \<lparr>min_cols = 40, min_rows = 10, max_cols = 120, max_rows = 40\<rparr>"

text \<open>The default hooks of the base class.\<close>

definition default_getPreferredSize :: "int \<Rightarrow> int \<Rightarrow> int \<times> int" where
  "default_getPreferredSize c r = (80, 24)"

definition default_adjustSize :: "int \<Rightarrow> int \<Rightarrow> bool \<times> int \<times> int" where
  "default_adjustSize c r =
     (let c1 = (if c < 40 then 40 else c);
          r1 = (if r < 10 then 10 else r);
          c2 = (if c1 > 120 then 120 else c1);
          r2 = (if r1 > 40 then 40 else r1)
      in (True, c2, r2))"


subsection \<open>Global state\<close>

text \<open>
  \<^verbatim>\<open>parameter_update\<close>. The \<^verbatim>\<open>double\<close> is never inspected; it is kept as its 64 bits. The
  member \<^verbatim>\<open>editor\<close> is the field \<open>target_editor\<close>.
\<close>

record parameter_update =
  param_id :: "32 word"
  param_value :: "64 word"
  target_editor :: nat

datatype hook_call =
    OnGuiCreate nat
  | OnGuiDestroy nat
  | OnCreateComponent nat
  | OnParameterUpdate nat

text \<open>
  The globals of \<^verbatim>\<open>ftxui-clap-support.cpp\<close>, the statics of the backend (\<open>platform\<close>), the
  editor objects of the caller by address (\<open>editors\<close>), and the trace of hook calls.
  \<open>g_render_thread\<close> is true when the thread is running.

  \<open>leaked\<close> is not a variable of the source. \<^verbatim>\<open>ftxui_clap_guiCreateWith\<close> overwrites
  \<^verbatim>\<open>editor->ctx\<close> without looking at it; a context that was still there stays allocated,
  with its terminal and the windows of that terminal, and nothing points to it any
  more. Such contexts are collected in \<open>leaked\<close>.
\<close>

record state =
  g_terminal :: "embedded_terminal option"
  g_active_editors :: "nat list"
  g_render_thread :: bool
  g_should_stop :: bool
  g_parameter_queue :: "parameter_update list"
  platform :: platform
  editors :: "nat \<Rightarrow> ftxui_clap_editor"
  leaked :: "FTXUIContext list"
  hook_calls :: "hook_call list"

definition hook :: "hook_call \<Rightarrow> state \<Rightarrow> state" where
  "hook c s = s\<lparr>hook_calls := hook_calls s @ [c]\<rparr>"

subsection \<open>The render loop\<close>

text \<open>
  The first block of the loop body: while the queue is not empty, the front update is
  taken off, and \<^verbatim>\<open>onParameterUpdate\<close> is called on its editor if it has one.
\<close>

function process_parameter_updates :: "state \<Rightarrow> state" where
  "process_parameter_updates s =
     (if g_parameter_queue s = [] then s
      else
        (let update = hd (g_parameter_queue s);
             s1 = s\<lparr>g_parameter_queue := tl (g_parameter_queue s)\<rparr>;
             s2 = (if target_editor update \<noteq> 0
                   then hook (OnParameterUpdate (target_editor update)) s1 else s1)
         in process_parameter_updates s2))"
  by pat_completeness auto
termination
  by (relation "measure (\<lambda>s. length (g_parameter_queue s))") (auto simp: hook_def)

declare process_parameter_updates.simps [simp del]

text \<open>The body of the loop over the snapshot of the active editors, for one editor.\<close>

definition render_editor :: "target \<Rightarrow> environment \<Rightarrow> nat \<Rightarrow> state \<Rightarrow> state" where
  "render_editor tgt env ed s =
     (if ed = 0 then s
      else
        (case ctx (editors s ed) of
           None \<Rightarrow> s
         | Some c \<Rightarrow>
             (if visible c then
                (case component c of
                   None \<Rightarrow> s
                 | Some render \<Rightarrow>
                     (let output = render (cols c) (rows c) in
                      case g_terminal s of
                        None \<Rightarrow> s
                      | Some t \<Rightarrow>
                          (case update_content tgt env (editor_id ed) output t (platform s) of
                             (t1, p1) \<Rightarrow> s\<lparr>g_terminal := Some t1, platform := p1\<rparr>)))
              else s)))"

fun render_editors :: "target \<Rightarrow> environment \<Rightarrow> nat list \<Rightarrow> state \<Rightarrow> state" where
  "render_editors tgt env [] s = s"
| "render_editors tgt env (ed # eds) s = render_editors tgt env eds (render_editor tgt env ed s)"

text \<open>One pass through the body of \<^verbatim>\<open>render_loop\<close>, up to the sleep.\<close>

definition render_loop_iteration :: "target \<Rightarrow> environment \<Rightarrow> state \<Rightarrow> state" where
  "render_loop_iteration tgt env s =
     (let s1 = process_parameter_updates s;
          active_editors = g_active_editors s1
      in render_editors tgt env active_editors s1)"

subsection \<open>Library functions\<close>

text \<open>
  \<^verbatim>\<open>initialize\<close>. When the backend cannot be initialised the fresh terminal is reset, which
  runs its destructor. When the thread cannot be started the exception is caught after
  \<^verbatim>\<open>g_terminal\<close> and \<^verbatim>\<open>g_should_stop\<close> were set.
\<close>

definition initialize :: "target \<Rightarrow> environment \<Rightarrow> state \<Rightarrow> bool \<times> state" where
  "initialize tgt env s =
     (if g_terminal s \<noteq> None then (True, s)
      else
        (case embedded_terminal_initialize tgt env (platform s) of
           (False, p1) \<Rightarrow>
             (False, s\<lparr>g_terminal := None,
                       platform := snd (embedded_terminal_shutdown tgt embedded_terminal_new p1)\<rparr>)
         | (True, p1) \<Rightarrow>
             (let s1 = s\<lparr>g_terminal := Some embedded_terminal_new, platform := p1,
                          g_should_stop := False\<rparr>
              in if thread_start_ok env then (True, s1\<lparr>g_render_thread := True\<rparr>)
                 else (False, s1))))"

definition shutdown :: "target \<Rightarrow> state \<Rightarrow> state" where
  "shutdown tgt s =
     (let s1 = s\<lparr>g_should_stop := True, g_render_thread := False, g_active_editors := [],
                  g_parameter_queue := []\<rparr>
      in case g_terminal s1 of
           None \<Rightarrow> s1
         | Some t \<Rightarrow>
             s1\<lparr>g_terminal := None, platform := snd (embedded_terminal_shutdown tgt t (platform s1))\<rparr>)"

definition register_editor :: "nat \<Rightarrow> state \<Rightarrow> state" where
  "register_editor ed s = s\<lparr>g_active_editors := g_active_editors s @ [ed]\<rparr>"

text \<open>\<^verbatim>\<open>std::remove\<close> followed by \<^verbatim>\<open>erase\<close> takes every occurrence out.\<close>

definition unregister_editor :: "nat \<Rightarrow> state \<Rightarrow> state" where
  "unregister_editor ed s = s\<lparr>g_active_editors := removeAll ed (g_active_editors s)\<rparr>"

definition queue_parameter_update :: "32 word \<Rightarrow> 64 word \<Rightarrow> nat \<Rightarrow> state \<Rightarrow> state" where
  "queue_parameter_update pid v ed s =
     s\<lparr>g_parameter_queue := g_parameter_queue s
          @ [\<lparr>param_id = pid, param_value = v, target_editor = ed\<rparr>]\<rparr>"


subsection \<open>The C API\<close>

text \<open>
  The arguments \<^verbatim>\<open>timer\<close> and \<^verbatim>\<open>options\<close> are never read by the source and are left out.
  Truncating division of C++:
\<close>

definition cdiv :: "int \<Rightarrow> int \<Rightarrow> int" where
  "cdiv a b = sgn a * sgn b * (\<bar>a\<bar> div \<bar>b\<bar>)"

text \<open>The value of a 32-bit two's complement \<^verbatim>\<open>int\<close> that holds the low 32 bits of a number.\<close>

definition int32_wrap :: "int \<Rightarrow> int" where
  "int32_wrap x = (x + 2147483648) mod 4294967296 - 2147483648"

definition ftxui_clap_guiCreateWith :: "target \<Rightarrow> environment \<Rightarrow> nat \<Rightarrow> state \<Rightarrow> bool \<times> state" where
  "ftxui_clap_guiCreateWith tgt env ed s =
     (if ed = 0 then (False, s)
      else
        (case initialize tgt env s of
           (False, s1) \<Rightarrow> (False, s1)
         | (True, s1) \<Rightarrow>
             (let c = FTXUIContext_new ed;
                  s2 = s1\<lparr>editors := (editors s1)(ed := (editors s1 ed)\<lparr>ctx := Some c\<rparr>),
                          leaked := (case ctx (editors s1 ed) of
                                       None \<Rightarrow> leaked s1
                                     | Some old \<Rightarrow> old # leaked s1)\<rparr>;
                  s3 = register_editor ed s2;
                  s4 = hook (OnGuiCreate ed) s3;
                  s5 = hook (OnCreateComponent ed) s4;
                  c1 = c\<lparr>component := onCreateComponent (editors s5 ed)\<rparr>
              in (True, s5\<lparr>editors := (editors s5)(ed := (editors s5 ed)\<lparr>ctx := Some c1\<rparr>)\<rparr>))))"

text \<open>
  \<^verbatim>\<open>delete ctx\<close> destroys the terminal of the context, if it has one, through its
  destructor.
\<close>

definition ftxui_clap_guiDestroyWith :: "target \<Rightarrow> nat \<Rightarrow> state \<Rightarrow> state" where
  "ftxui_clap_guiDestroyWith tgt ed s =
     (if ed = 0 then s
      else
        (case ctx (editors s ed) of
           None \<Rightarrow> s
         | Some c \<Rightarrow>
             (let s1 = hook (OnGuiDestroy ed) s;
                  (term1, p1) =
                    (case terminal c of
                       None \<Rightarrow> (None, platform s1)
                     | Some t \<Rightarrow>
                         (case remove_editor tgt (editor_id ed) t (platform s1) of
                            (t1, p) \<Rightarrow> (Some t1, p)));
                  s2 = unregister_editor ed (s1\<lparr>platform := p1\<rparr>);
                  p2 = (case term1 of
                          None \<Rightarrow> platform s2
                        | Some t1 \<Rightarrow> snd (embedded_terminal_shutdown tgt t1 (platform s2)))
              in s2\<lparr>platform := p2,
                    editors := (editors s2)(ed := (editors s2 ed)\<lparr>ctx := None\<rparr>)\<rparr>)))"

text \<open>
  The \<^verbatim>\<open>clap_window\<close> argument is \<open>None\<close> for a null pointer and otherwise the handle of the
  member that the compiled platform reads (\<^verbatim>\<open>x11\<close> or \<^verbatim>\<open>win32\<close>). On a platform that is
  neither, \<^verbatim>\<open>parent_handle\<close> stays null.
\<close>

definition ftxui_clap_guiSetParentWith ::
  "target \<Rightarrow> environment \<Rightarrow> nat \<Rightarrow> nat option \<Rightarrow> state \<Rightarrow> bool \<times> state" where
  "ftxui_clap_guiSetParentWith tgt env ed window s =
     (if ed = 0 then (False, s)
      else
        (case (ctx (editors s ed), window) of
           (None, _) \<Rightarrow> (False, s)
         | (Some c, None) \<Rightarrow> (False, s)
         | (Some c, Some handle) \<Rightarrow>
             (let store = (\<lambda>t1 p1. s\<lparr>platform := p1,
                             editors := (editors s)
                               (ed := (editors s ed)\<lparr>ctx := Some (c\<lparr>terminal := Some t1\<rparr>)\<rparr>)\<rparr>);
                  (ok, t, p1) =
                    (case terminal c of
                       Some t0 \<Rightarrow> (True, t0, platform s)
                     | None \<Rightarrow>
                         (case embedded_terminal_initialize tgt env (platform s) of
                            (b, p) \<Rightarrow> (b, embedded_terminal_new, p)))
              in if \<not> ok then (False, store t p1)
                 else
                   (let parent_handle = (case tgt of Unsupported \<Rightarrow> 0 | _ \<Rightarrow> handle) in
                    if parent_handle \<noteq> 0 then
                      (case create_window tgt env (editor_id ed) parent_handle 0 0
                              (int32_wrap (cols c * 8)) (int32_wrap (rows c * 16)) t p1 of
                         (b, t1, p2) \<Rightarrow> (b, store t1 p2))
                    else (False, store t p1)))))"

definition ftxui_clap_guiSetSizeWith :: "nat \<Rightarrow> int \<Rightarrow> int \<Rightarrow> state \<Rightarrow> bool \<times> state" where
  "ftxui_clap_guiSetSizeWith ed w h s =
     (if ed = 0 then (False, s)
      else
        (case ctx (editors s ed) of
           None \<Rightarrow> (False, s)
         | Some c \<Rightarrow>
             (let cols0 = cdiv w 8;
                  rows0 = cdiv h 16;
                  cols1 = max 40 (min 120 cols0);
                  rows1 = max 10 (min 40 rows0);
                  (adjusted, cols2, rows2) = adjustSize (editors s ed) cols1 rows1;
                  (cols3, rows3) =
                    (if \<not> adjusted then getPreferredSize (editors s ed) cols2 rows2
                     else (cols2, rows2))
              in (True,
                  s\<lparr>editors := (editors s)
                       (ed := (editors s ed)\<lparr>ctx := Some (c\<lparr>cols := cols3, rows := rows3\<rparr>)\<rparr>)\<rparr>))))"

definition ftxui_clap_guiShowWith :: "nat \<Rightarrow> state \<Rightarrow> bool \<times> state" where
  "ftxui_clap_guiShowWith ed s =
     (if ed = 0 then (False, s)
      else
        (case ctx (editors s ed) of
           None \<Rightarrow> (False, s)
         | Some c \<Rightarrow>
             (True, s\<lparr>editors := (editors s)
                         (ed := (editors s ed)\<lparr>ctx := Some (c\<lparr>visible := True\<rparr>)\<rparr>)\<rparr>)))"

definition ftxui_clap_guiHideWith :: "nat \<Rightarrow> state \<Rightarrow> bool \<times> state" where
  "ftxui_clap_guiHideWith ed s =
     (if ed = 0 then (False, s)
      else
        (case ctx (editors s ed) of
           None \<Rightarrow> (False, s)
         | Some c \<Rightarrow>
             (True, s\<lparr>editors := (editors s)
                         (ed := (editors s ed)\<lparr>ctx := Some (c\<lparr>visible := False\<rparr>)\<rparr>)\<rparr>)))"

text \<open>
  The reference arguments \<^verbatim>\<open>width\<close> and \<^verbatim>\<open>height\<close> of \<^verbatim>\<open>ftxui_clap_guiGetSizeWith\<close>: their
  values before the call go in, their values after it come out with the result.
\<close>

definition ftxui_clap_guiGetSizeWith :: "nat \<Rightarrow> int \<Rightarrow> int \<Rightarrow> state \<Rightarrow> bool \<times> int \<times> int" where
  "ftxui_clap_guiGetSizeWith ed w h s =
     (if ed = 0 then (False, w, h)
      else
        (case ctx (editors s ed) of
           None \<Rightarrow> (False, w, h)
         | Some c \<Rightarrow> (True, int32_wrap (cols c * 8), int32_wrap (rows c * 16))))"


subsection \<open>Sequences of operations\<close>

text \<open>
  The boundary operations, and the two other things that happen to the global state
  while a host uses the library: a producer queues a parameter update, and the render
  thread goes once through its loop. An operation that talks to the native system
  carries what the native system answers.
\<close>

datatype operation =
    GuiCreate environment nat
  | GuiDestroy nat
  | GuiSetParent environment nat "nat option"
  | GuiSetSize nat int int
  | GuiShow nat
  | GuiHide nat
  | GuiGetSize nat int int
  | QueueParameterUpdate "32 word" "64 word" nat
  | RenderLoopIteration environment

fun step :: "target \<Rightarrow> operation \<Rightarrow> state \<Rightarrow> state" where
  "step tgt (GuiCreate env ed) s = snd (ftxui_clap_guiCreateWith tgt env ed s)"
| "step tgt (GuiDestroy ed) s = ftxui_clap_guiDestroyWith tgt ed s"
| "step tgt (GuiSetParent env ed window) s = snd (ftxui_clap_guiSetParentWith tgt env ed window s)"
| "step tgt (GuiSetSize ed w h) s = snd (ftxui_clap_guiSetSizeWith ed w h s)"
| "step tgt (GuiShow ed) s = snd (ftxui_clap_guiShowWith ed s)"
| "step tgt (GuiHide ed) s = snd (ftxui_clap_guiHideWith ed s)"
| "step tgt (GuiGetSize ed w h) s = s"
| "step tgt (QueueParameterUpdate pid v ed) s = queue_parameter_update pid v ed s"
| "step tgt (RenderLoopIteration env) s = render_loop_iteration tgt env s"

fun run :: "target \<Rightarrow> operation list \<Rightarrow> state \<Rightarrow> state" where
  "run tgt [] s = s"
| "run tgt (op # ops) s = run tgt ops (step tgt op s)"

text \<open>
  The state when the library is loaded: the globals as their initialisers leave them,
  no native connection, and the caller's editor objects \<open>eds\<close> with the null \<^verbatim>\<open>ctx\<close> that
  the constructor of the base class gives them.
\<close>

definition initial_platform :: platform where
  "initial_platform =
     \<lparr>g_display = False, g_class_registered = False, g_renderers = Map.empty, native = []\<rparr>"

definition initial_state :: "(nat \<Rightarrow> ftxui_clap_editor) \<Rightarrow> state" where
  "initial_state eds =
     \<lparr>g_terminal = None, g_active_editors = [], g_render_thread = False,
      g_should_stop = False, g_parameter_queue = [], platform = initial_platform,
      editors = (\<lambda>ed. (eds ed)\<lparr>ctx := None\<rparr>), leaked = [], hook_calls = []\<rparr>"

text \<open>
  \<open>no_recreate tgt ops s\<close>: running \<open>ops\<close> from \<open>s\<close>, \<^verbatim>\<open>ftxui_clap_guiCreateWith\<close> is never
  called on an editor whose \<^verbatim>\<open>ctx\<close> is set.
\<close>

fun no_recreate :: "target \<Rightarrow> operation list \<Rightarrow> state \<Rightarrow> bool" where
  "no_recreate tgt [] s = True"
| "no_recreate tgt (op # ops) s =
     ((case op of GuiCreate env ed \<Rightarrow> ctx (editors s ed) = None | _ \<Rightarrow> True)
      \<and> no_recreate tgt ops (step tgt op s))"


subsection \<open>Notions used to state the properties\<close>

text \<open>The column/row pair stored for an editor, if it has a context.\<close>

definition stored_size :: "state \<Rightarrow> nat \<Rightarrow> (int \<times> int) option" where
  "stored_size s ed = map_option (\<lambda>c. (cols c, rows c)) (ctx (editors s ed))"

text \<open>
  The hook calls that a list of queued updates is to be answered with: one call per
  update that has an editor, in the order of the list.
\<close>

definition delivered :: "parameter_update list \<Rightarrow> hook_call list" where
  "delivered us = map OnParameterUpdate (filter (\<lambda>e. e \<noteq> 0) (map target_editor us))"

fun push_all :: "parameter_update list \<Rightarrow> state \<Rightarrow> state" where
  "push_all [] s = s"
| "push_all (u # us) s =
     push_all us (queue_parameter_update (param_id u) (param_value u) (target_editor u) s)"





text \<open>
  The record a registry holds for an identifier, and the identifiers it holds records
  for. \<open>no_record s ident\<close>: no registry in memory holds a record for \<open>ident\<close>, be it the
  global one, the one of an editor's context, or the one of a context left behind.
\<close>

definition registry_record :: "embedded_terminal option \<Rightarrow> string \<Rightarrow> editor_window option" where
  "registry_record reg ident =
     (case reg of None \<Rightarrow> None | Some t \<Rightarrow> map_of (editors_map t) ident)"

definition keys_of :: "embedded_terminal option \<Rightarrow> string set" where
  "keys_of reg = (case reg of None \<Rightarrow> {} | Some t \<Rightarrow> fst ` set (editors_map t))"

definition no_record :: "state \<Rightarrow> string \<Rightarrow> bool" where
  "no_record s ident \<longleftrightarrow>
     registry_record (g_terminal s) ident = None
     \<and> (\<forall>ed c. ctx (editors s ed) = Some c \<longrightarrow> registry_record (terminal c) ident = None)
     \<and> (\<forall>c \<in> set (leaked s). registry_record (terminal c) ident = None)"

text \<open>The editors that the render loop passes over.\<close>

definition skipped :: "state \<Rightarrow> nat \<Rightarrow> bool" where
  "skipped s ed \<longleftrightarrow>
     ed = 0 \<or> (case ctx (editors s ed) of
                 None \<Rightarrow> True
               | Some c \<Rightarrow> \<not> visible c \<or> component c = None)"

text \<open>
  Invariants. \<open>live_registered\<close>: every active editor is not null and has a context.
  \<open>own_keys\<close>: the global registry holds no record, and the registry of an editor's
  context holds records for that editor only. \<open>ctx_step ed s s'\<close>: from \<open>s\<close> to \<open>s'\<close> at
  most the context of \<open>ed\<close> changed, it was neither created nor deleted, and its registry
  gained at most a record for \<open>ed\<close>.
\<close>

definition set_ctx :: "nat \<Rightarrow> FTXUIContext option \<Rightarrow> state \<Rightarrow> nat \<Rightarrow> ftxui_clap_editor" where
  "set_ctx ed c s = (editors s)(ed := (editors s ed)\<lparr>ctx := c\<rparr>)"

definition live_registered :: "state \<Rightarrow> bool" where
  "live_registered s \<longleftrightarrow>
     (\<forall>ed \<in> set (g_active_editors s). ed \<noteq> 0 \<and> ctx (editors s ed) \<noteq> None)"

definition own_keys :: "state \<Rightarrow> bool" where
  "own_keys s \<longleftrightarrow>
     keys_of (g_terminal s) = {}
     \<and> (\<forall>ed c. ctx (editors s ed) = Some c \<longrightarrow> keys_of (terminal c) \<subseteq> {editor_id ed})"

definition well_formed :: "state \<Rightarrow> bool" where
  "well_formed s \<longleftrightarrow>
     distinct (g_active_editors s) \<and> live_registered s \<and> leaked s = [] \<and> own_keys s
     \<and> ctx (editors s 0) = None"

definition ctx_step :: "nat \<Rightarrow> state \<Rightarrow> state \<Rightarrow> bool" where
  "ctx_step ed s s' \<longleftrightarrow>
     g_active_editors s' = g_active_editors s \<and> leaked s' = leaked s
     \<and> keys_of (g_terminal s') = keys_of (g_terminal s)
     \<and> (\<forall>e. e \<noteq> ed \<longrightarrow> editors s' e = editors s e)
     \<and> (case ctx (editors s' ed) of
          None \<Rightarrow> ctx (editors s ed) = None
        | Some c' \<Rightarrow>
            (\<exists>c. ctx (editors s ed) = Some c
                 \<and> keys_of (terminal c') \<subseteq> insert (editor_id ed) (keys_of (terminal c))))"

text \<open>
  \<open>no_recreate_of tgt ed ops s\<close>: running \<open>ops\<close> from \<open>s\<close>, \<^verbatim>\<open>ftxui_clap_guiCreateWith\<close> is never
  called on the editor \<open>ed\<close> while the registry of its context holds a window record
  under its identifier. \<open>registry_inv ed s\<close>: the registries hold records of their own
  editors only, and no context left behind holds a record under the identifier of \<open>ed\<close>.
\<close>

fun no_recreate_of :: "target \<Rightarrow> nat \<Rightarrow> operation list \<Rightarrow> state \<Rightarrow> bool" where
  "no_recreate_of tgt ed [] s = True"
| "no_recreate_of tgt ed (op # ops) s =
     ((case op of
         GuiCreate env e \<Rightarrow>
           e \<noteq> ed
           \<or> (case ctx (editors s ed) of
                 None \<Rightarrow> True
               | Some c \<Rightarrow> registry_record (terminal c) (editor_id ed) = None)
       | _ \<Rightarrow> True)
      \<and> no_recreate_of tgt ed ops (step tgt op s))"

definition registry_inv :: "nat \<Rightarrow> state \<Rightarrow> bool" where
  "registry_inv ed s \<longleftrightarrow>
     own_keys s \<and> ctx (editors s 0) = None
     \<and> (\<forall>c \<in> set (leaked s). registry_record (terminal c) (editor_id ed) = None)"

subsection \<open>Concrete inputs\<close>

text \<open>
  A native system in which every call succeeds: windows get the handle 7 and are 640 by
  384 pixels, and every font has glyphs 8 wide and 16 high.
\<close>

definition example_env :: environment where
  "example_env =
     \<lparr>XOpenDisplay_ok = True, DefaultRootWindow = 1, XCreateSimpleWindow_result = 7,
      XGetWindowAttributes_result = Some (640, 384), XCreateGC_ok = True,
      XftDrawCreate_ok = True, XftFontOpenName = (\<lambda>name. Some (8, 16)),
      RegisterClassEx_ok = True, CreateWindowEx_result = 7, D2D1CreateFactory_ok = True,
      DWriteCreateFactory_ok = True, CreateTextFormat_ok = (\<lambda>name. True),
      CreateHwndRenderTarget_ok = True, CreateSolidColorBrush_ok = (\<lambda>colour. True),
      MultiByteToWideChar_ok = True, CreateTextLayout_ok = True, thread_start_ok = True\<rparr>"

text \<open>An editor with the default hooks whose component renders the text \<open>ui\<close>.\<close>

definition example_editor :: ftxui_clap_editor where
  "example_editor =
     \<lparr>onCreateComponent = Some (\<lambda>c r. ''ui''),
      getPreferredSize = default_getPreferredSize, adjustSize = default_adjustSize,
      ctx = None\<rparr>"

definition example_state :: state where
  "example_state = initial_state (\<lambda>ed. example_editor)"

text \<open>The state after the GUI of the editor at address 2 was created, and after it was resized.\<close>

definition example_created :: state where
  "example_created = run Linux [GuiCreate example_env 2] example_state"

definition example_resized :: state where
  "example_resized = snd (ftxui_clap_guiSetSizeWith 2 100 50 example_created)"




text \<open>A registry with one window, for the editor at address 2; and backends that are up.\<close>

definition example_registry :: embedded_terminal where
  "example_registry =
     \<lparr>editors_map = [(''2'', \<lparr>content = ''old'', platform_handle = 7, width = 640,
                              height = 384, visible = True\<rparr>)]\<rparr>"

definition example_linux_platform :: platform where
  "example_linux_platform = initial_platform\<lparr>g_display := True\<rparr>"

definition example_windows_platform :: platform where
  "example_windows_platform = initial_platform\<lparr>g_class_registered := True\<rparr>"

text \<open>
  A state with two editors, at addresses 2 and 3, the first shown and the second hidden,
  and a global registry that holds a record for each.
\<close>

definition example_two_editors :: state where
  "example_two_editors =
     \<lparr>g_terminal = Some \<lparr>editors_map =
         [(''2'', \<lparr>content = ''old2'', platform_handle = 7, width = 640, height = 384,
                    visible = True\<rparr>),
          (''3'', \<lparr>content = ''old3'', platform_handle = 8, width = 640, height = 384,
                    visible = True\<rparr>)]\<rparr>,
      g_active_editors = [2, 3], g_render_thread = True, g_should_stop = False,
      g_parameter_queue = [], platform = example_linux_platform,
      editors = (\<lambda>ed. example_editor)
        (2 := example_editor\<lparr>ctx := Some ((FTXUIContext_new 2)
                 \<lparr>component := Some (\<lambda>c r. ''ui''), visible := True\<rparr>)\<rparr>,
         3 := example_editor\<lparr>ctx := Some ((FTXUIContext_new 3)
                 \<lparr>component := Some (\<lambda>c r. ''ui''), visible := False\<rparr>)\<rparr>),
      leaked = [], hook_calls = []\<rparr>"

section \<open>Properties\<close>

subsection \<open>Identifiers\<close>

lemma digit_val_digit_char: "d < 10 \<Longrightarrow> digit_val (digit_char d) = d"
proof -
  assume "d < 10"
  then have "d \<in> {0, 1, 2, 3, 4, 5, 6, 7, 8, 9}" by auto
  then show ?thesis
    by (auto simp add: digit_val_def digit_char_def)
qed

lemma from_string_snoc: "from_string (cs @ [c]) = 10 * from_string cs + digit_val c"
  by (simp add: from_string_def)

lemma from_string_to_string: "from_string (to_string n) = n"
proof (induction n rule: to_string.induct)
  case (1 n)
  show ?case
  proof (cases "n < 10")
    case True
    then show ?thesis
      by (simp add: to_string.simps [of n] from_string_def digit_val_digit_char)
  next
    case False
    then show ?thesis
      using "1.IH" by (simp add: to_string.simps [of n] from_string_snoc digit_val_digit_char)
  qed
qed

lemma editor_id_inject: "editor_id a = editor_id b \<longleftrightarrow> a = b"
  by (metis editor_id_def from_string_to_string)

lemma editor_id_2: "editor_id 2 = ''2''"
  by (simp add: editor_id_def to_string.simps digit_char_def)

lemma editor_id_3: "editor_id 3 = ''3''"
  by (simp add: editor_id_def to_string.simps digit_char_def)

subsection \<open>Evaluating the operations on concrete inputs\<close>

lemmas eval_defs =
  example_state_def example_env_def example_editor_def initial_state_def initial_platform_def
  ftxui_clap_guiCreateWith_def ftxui_clap_guiDestroyWith_def ftxui_clap_guiSetParentWith_def
  ftxui_clap_guiSetSizeWith_def ftxui_clap_guiGetSizeWith_def initialize_def
  embedded_terminal_initialize_def platform_initialize_def embedded_terminal_new_def
  embedded_terminal_shutdown_def platform_shutdown_def create_window_def
  platform_create_window_def remove_editor_def platform_destroy_window_def
  LinuxTerminalRenderer_initialize_def LinuxTerminalRenderer_new_def open_font_def
  register_editor_def unregister_editor_def hook_def call_def FTXUIContext_new_def
  default_adjustSize_def cdiv_def int32_wrap_def Let_def

lemma example_created_ctx:
  "ctx (editors example_created 2) =
     Some \<lparr>editor = 2, component = Some (\<lambda>c r. ''ui''), terminal = None, cols = 80,
           rows = 24, visible = False\<rparr>"
  by (simp add: example_created_def eval_defs)

lemma example_created_hooks:
  "adjustSize (editors example_created 2) = default_adjustSize"
  "getPreferredSize (editors example_created 2) = default_getPreferredSize"
  by (simp_all add: example_created_def eval_defs del: default_adjustSize_def)

subsection \<open>Size negotiation\<close>

lemma clamp_default_adjustSize:
  "default_adjustSize (max 40 (min 120 a)) (max 10 (min 40 b)) =
     (True, max 40 (min 120 a), max 10 (min 40 b))"
  by (simp add: default_adjustSize_def Let_def)

lemma cdiv_mult_8: "0 \<le> a \<Longrightarrow> cdiv (a * 8) 8 = a"
  by (simp add: cdiv_def sgn_if)

lemma cdiv_mult_16: "0 \<le> a \<Longrightarrow> cdiv (a * 16) 16 = a"
  by (simp add: cdiv_def sgn_if)

lemma int32_wrap_id: "- 2147483648 \<le> x \<Longrightarrow> x < 2147483648 \<Longrightarrow> int32_wrap x = x"
  by (simp add: int32_wrap_def mod_pos_pos_trivial)

text \<open>
  Claim C1. For an editor that has a context and whose \<^verbatim>\<open>adjustSize\<close> and
  \<^verbatim>\<open>getPreferredSize\<close> are the defaults of the base class, \<^verbatim>\<open>ftxui_clap_guiSetSizeWith\<close>
  returns true for every pixel width and height, and the column/row pair stored
  afterwards lies between the minimum and the maximum of the default options, that is,
  in [40, 120] for the columns and [10, 40] for the rows.
\<close>

theorem guiSetSizeWith_within_bounds:
  assumes "ed \<noteq> 0" and "ctx (editors s ed) = Some c"
    and "adjustSize (editors s ed) = default_adjustSize"
    and "getPreferredSize (editors s ed) = default_getPreferredSize"
  shows "\<exists>cs rs. fst (ftxui_clap_guiSetSizeWith ed w h s) = True
           \<and> stored_size (snd (ftxui_clap_guiSetSizeWith ed w h s)) ed = Some (cs, rs)
           \<and> min_cols default_options \<le> cs \<and> cs \<le> max_cols default_options
           \<and> min_rows default_options \<le> rs \<and> rs \<le> max_rows default_options
           \<and> 40 \<le> cs \<and> cs \<le> 120 \<and> 10 \<le> rs \<and> rs \<le> 40"
  using assms
  by (simp add: ftxui_clap_guiSetSizeWith_def stored_size_def clamp_default_adjustSize
      default_options_def Let_def)

theorem guiSetSizeWith_within_bounds_witness:
  "(2::nat) \<noteq> 0
   \<and> ctx (editors example_created 2) =
       Some \<lparr>editor = 2, component = Some (\<lambda>c r. ''ui''), terminal = None, cols = 80,
             rows = 24, visible = False\<rparr>
   \<and> adjustSize (editors example_created 2) = default_adjustSize
   \<and> getPreferredSize (editors example_created 2) = default_getPreferredSize
   \<and> (\<exists>cs rs. fst (ftxui_clap_guiSetSizeWith 2 100 50 example_created) = True
         \<and> stored_size (snd (ftxui_clap_guiSetSizeWith 2 100 50 example_created)) 2
             = Some (cs, rs)
         \<and> min_cols default_options \<le> cs \<and> cs \<le> max_cols default_options
         \<and> min_rows default_options \<le> rs \<and> rs \<le> max_rows default_options
         \<and> 40 \<le> cs \<and> cs \<le> 120 \<and> 10 \<le> rs \<and> rs \<le> 40)
   \<and> stored_size (snd (ftxui_clap_guiSetSizeWith 2 100 50 example_created)) 2 = Some (40, 10)
   \<and> stored_size (snd (ftxui_clap_guiSetSizeWith 2 640 384 example_created)) 2 = Some (80, 24)"
proof -
  have h1: "(2::nat) \<noteq> 0" by simp
  note h2 = example_created_ctx and h3 = example_created_hooks(1)
    and h4 = example_created_hooks(2)
  have v1: "stored_size (snd (ftxui_clap_guiSetSizeWith 2 100 50 example_created)) 2
      = Some (40, 10)"
    by (simp add: ftxui_clap_guiSetSizeWith_def stored_size_def h2 h3 default_adjustSize_def
        cdiv_def Let_def)
  have v2: "stored_size (snd (ftxui_clap_guiSetSizeWith 2 640 384 example_created)) 2
      = Some (80, 24)"
    by (simp add: ftxui_clap_guiSetSizeWith_def stored_size_def h2 h3 default_adjustSize_def
        cdiv_def Let_def)
  show ?thesis
    using h1 h2 h3 h4 v1 v2 guiSetSizeWith_within_bounds [OF h1 h2 h3 h4, of 100 50]
    by simp
qed

text \<open>
  Claim C6. For an editor whose \<^verbatim>\<open>adjustSize\<close> is the default of the base class: after a
  successful \<^verbatim>\<open>ftxui_clap_guiSetSizeWith\<close>, \<^verbatim>\<open>ftxui_clap_guiGetSizeWith\<close> succeeds, and
  submitting the pixel size it reports to \<^verbatim>\<open>ftxui_clap_guiSetSizeWith\<close> again succeeds and
  changes nothing: the state, and with it the stored column/row pair, stays as it was.
\<close>

theorem guiSetSize_guiGetSize_fixed_point:
  assumes "adjustSize (editors s ed) = default_adjustSize"
    and "ftxui_clap_guiSetSizeWith ed w h s = (True, s1)"
    and "ftxui_clap_guiGetSizeWith ed w0 h0 s1 = (ok, pw, ph)"
  shows "ok \<and> ftxui_clap_guiSetSizeWith ed pw ph s1 = (True, s1)
       \<and> stored_size (snd (ftxui_clap_guiSetSizeWith ed pw ph s1)) ed = stored_size s1 ed"
proof -
  have ed: "ed \<noteq> 0"
    using assms(2) by (auto simp add: ftxui_clap_guiSetSizeWith_def split: if_splits)
  obtain c where c: "ctx (editors s ed) = Some c"
    using assms(2) ed by (cases "ctx (editors s ed)") (auto simp add: ftxui_clap_guiSetSizeWith_def)
  let ?cs = "max 40 (min 120 (cdiv w 8))" and ?rs = "max 10 (min 40 (cdiv h 16))"
  let ?c1 = "c\<lparr>cols := ?cs, rows := ?rs\<rparr>"
  have s1: "s1 = s\<lparr>editors := (editors s)(ed := (editors s ed)\<lparr>ctx := Some ?c1\<rparr>)\<rparr>"
    using assms(1,2) ed c
    by (simp add: ftxui_clap_guiSetSizeWith_def clamp_default_adjustSize Let_def)
  have "int32_wrap (?cs * 8) = ?cs * 8" and "int32_wrap (?rs * 16) = ?rs * 16"
    by (rule int32_wrap_id; simp)+
  then have ok: "ok" and pw: "pw = ?cs * 8" and ph: "ph = ?rs * 16"
    using ed assms(3) by (simp_all add: ftxui_clap_guiGetSizeWith_def s1)
  have a: "cdiv pw 8 = ?cs" unfolding pw by (rule cdiv_mult_8) simp
  have b: "cdiv ph 16 = ?rs" unfolding ph by (rule cdiv_mult_16) simp
  have "ftxui_clap_guiSetSizeWith ed pw ph s1 = (True, s1)"
    using ed assms(1)
    by (simp add: ftxui_clap_guiSetSizeWith_def a b s1 clamp_default_adjustSize Let_def)
  with ok show ?thesis by simp
qed

theorem guiSetSize_guiGetSize_fixed_point_witness:
  "adjustSize (editors example_created 2) = default_adjustSize
   \<and> ftxui_clap_guiSetSizeWith 2 100 50 example_created = (True, example_resized)
   \<and> ftxui_clap_guiGetSizeWith 2 0 0 example_resized = (True, 320, 160)
   \<and> ftxui_clap_guiSetSizeWith 2 320 160 example_resized = (True, example_resized)
   \<and> stored_size (snd (ftxui_clap_guiSetSizeWith 2 320 160 example_resized)) 2
       = stored_size example_resized 2"
proof -
  note h1 = example_created_hooks(1)
  have h2: "ftxui_clap_guiSetSizeWith 2 100 50 example_created = (True, example_resized)"
    by (simp add: example_resized_def ftxui_clap_guiSetSizeWith_def example_created_ctx
        Let_def split: prod.splits)
  have h3: "ftxui_clap_guiGetSizeWith 2 0 0 example_resized = (True, 320, 160)"
    by (simp add: example_resized_def ftxui_clap_guiSetSizeWith_def
        ftxui_clap_guiGetSizeWith_def example_created_ctx h1 default_adjustSize_def cdiv_def
        int32_wrap_def Let_def)
  show ?thesis
    using h1 h2 h3 guiSetSize_guiGetSize_fixed_point [OF h1 h2 h3] by simp
qed


subsection \<open>Parameter updates\<close>

lemma process_parameter_updates_queue:
  "g_parameter_queue s = q \<Longrightarrow>
   process_parameter_updates s =
     s\<lparr>g_parameter_queue := [], hook_calls := hook_calls s @ delivered q\<rparr>"
proof (induction q arbitrary: s)
  case Nil
  then show ?case
    by (simp add: process_parameter_updates.simps [of s] delivered_def)
next
  case (Cons u us)
  let ?s1 = "s\<lparr>g_parameter_queue := us\<rparr>"
  let ?s2 = "if target_editor u \<noteq> 0 then hook (OnParameterUpdate (target_editor u)) ?s1 else ?s1"
  have q2: "g_parameter_queue ?s2 = us"
    by (simp add: hook_def)
  have "process_parameter_updates s = process_parameter_updates ?s2"
    using Cons.prems by (simp add: process_parameter_updates.simps [of s] Let_def)
  also have "\<dots> = ?s2\<lparr>g_parameter_queue := [], hook_calls := hook_calls ?s2 @ delivered us\<rparr>"
    by (rule Cons.IH [OF q2])
  also have "\<dots> = s\<lparr>g_parameter_queue := [], hook_calls := hook_calls s @ delivered (u # us)\<rparr>"
    by (simp add: hook_def delivered_def)
  finally show ?case .
qed

lemma process_parameter_updates_eq:
  "process_parameter_updates s =
     s\<lparr>g_parameter_queue := [], hook_calls := hook_calls s @ delivered (g_parameter_queue s)\<rparr>"
  by (rule process_parameter_updates_queue [OF refl])

lemma push_all_eq:
  "push_all us s = s\<lparr>g_parameter_queue := g_parameter_queue s @ us\<rparr>"
  by (induction us arbitrary: s) (simp_all add: queue_parameter_update_def)

lemma render_editor_editors [simp]: "editors (render_editor tgt env ed s) = editors s"
  by (simp add: render_editor_def Let_def split: option.splits prod.splits)

lemma render_editor_leaked [simp]: "leaked (render_editor tgt env ed s) = leaked s"
  by (simp add: render_editor_def Let_def split: option.splits prod.splits)

lemma render_editor_active [simp]:
  "g_active_editors (render_editor tgt env ed s) = g_active_editors s"
  by (simp add: render_editor_def Let_def split: option.splits prod.splits)

lemma render_editor_hook_calls [simp]: "hook_calls (render_editor tgt env ed s) = hook_calls s"
  by (simp add: render_editor_def Let_def split: option.splits prod.splits)

lemma render_editor_queue [simp]:
  "g_parameter_queue (render_editor tgt env ed s) = g_parameter_queue s"
  by (simp add: render_editor_def Let_def split: option.splits prod.splits)

lemma render_editors_editors [simp]: "editors (render_editors tgt env eds s) = editors s"
  by (induction eds arbitrary: s) simp_all

lemma render_editors_leaked [simp]: "leaked (render_editors tgt env eds s) = leaked s"
  by (induction eds arbitrary: s) simp_all

lemma render_editors_active [simp]:
  "g_active_editors (render_editors tgt env eds s) = g_active_editors s"
  by (induction eds arbitrary: s) simp_all

lemma render_editors_hook_calls [simp]:
  "hook_calls (render_editors tgt env eds s) = hook_calls s"
  by (induction eds arbitrary: s) simp_all

lemma render_editors_queue [simp]:
  "g_parameter_queue (render_editors tgt env eds s) = g_parameter_queue s"
  by (induction eds arbitrary: s) simp_all

text \<open>
  Claim C2. Let updates \<open>us\<close> be pushed, in order, with \<^verbatim>\<open>queue_parameter_update\<close>. The drain
  step of the render loop then leaves the queue empty and calls \<^verbatim>\<open>onParameterUpdate\<close>
  once for each update waiting in the queue that has an editor, in the order of arrival,
  those that waited already first; the same holds of one whole pass through the loop
  body. Nothing is merged: when the same parameter of one editor is queued twice before a
  drain, the hook is called twice.
\<close>

theorem parameter_updates_fifo:
  "g_parameter_queue (process_parameter_updates (push_all us s)) = []
   \<and> hook_calls (process_parameter_updates (push_all us s)) =
       hook_calls s @ delivered (g_parameter_queue s @ us)
   \<and> g_parameter_queue (render_loop_iteration tgt env (push_all us s)) = []
   \<and> hook_calls (render_loop_iteration tgt env (push_all us s)) =
       hook_calls s @ delivered (g_parameter_queue s @ us)
   \<and> hook_calls (process_parameter_updates
        (queue_parameter_update pid v2 (Suc e)
          (queue_parameter_update pid v1 (Suc e) (s\<lparr>g_parameter_queue := []\<rparr>)))) =
       hook_calls s @ [OnParameterUpdate (Suc e), OnParameterUpdate (Suc e)]"
  by (simp add: process_parameter_updates_eq push_all_eq render_loop_iteration_def Let_def
      queue_parameter_update_def delivered_def)

subsection \<open>The registry on unknown identifiers\<close>

text \<open>
  Claim C4. When a registry holds no window for an identifier, \<^verbatim>\<open>update_content\<close>,
  \<^verbatim>\<open>resize_window\<close>, \<^verbatim>\<open>show_window\<close> and \<^verbatim>\<open>remove_editor\<close> called with that identifier
  return with the registry and the backend (its statics and the trace of native calls
  included) exactly as they were.
\<close>

theorem unknown_identifier_noop:
  assumes "map_of (editors_map t) ident = None"
  shows "update_content tgt env ident txt t p = (t, p)
       \<and> resize_window tgt ident w h t p = (t, p)
       \<and> show_window tgt ident vis t p = (t, p)
       \<and> remove_editor tgt ident t p = (t, p)"
  using assms
  by (simp add: update_content_def resize_window_def show_window_def remove_editor_def)

theorem unknown_identifier_noop_witness:
  "map_of (editors_map example_registry) ''3'' = None
   \<and> update_content Linux example_env ''3'' ''new'' example_registry example_linux_platform
       = (example_registry, example_linux_platform)
   \<and> resize_window Linux ''3'' 800 600 example_registry example_linux_platform
       = (example_registry, example_linux_platform)
   \<and> show_window Linux ''3'' False example_registry example_linux_platform
       = (example_registry, example_linux_platform)
   \<and> remove_editor Linux ''3'' example_registry example_linux_platform
       = (example_registry, example_linux_platform)"
proof -
  have h: "map_of (editors_map example_registry) ''3'' = None"
    by (simp add: example_registry_def)
  show ?thesis
    using h unknown_identifier_noop [OF h, of Linux example_env "''new''"
        example_linux_platform 800 600 False]
    by simp
qed

subsection \<open>Rendering\<close>














subsection \<open>Creating a window without a parent\<close>

text \<open>
  Claim C7, as far as the code has it. With a null parent handle, \<^verbatim>\<open>create_window\<close> on
  Linux creates the child under the default root window of the display and succeeds,
  provided the display is open, \<^verbatim>\<open>XCreateSimpleWindow\<close> returns a window and the renderer
  of that window can be initialised; the registry then holds the window under the
  identifier. On Windows, and on a platform without a backend, it fails with the
  registry and the backend unchanged and no window created. \<^verbatim>\<open>ftxui_clap_guiSetParentWith\<close>
  never gets that far: given a null handle it returns false.
\<close>

theorem create_window_null_parent:
  "(g_display p \<and> XCreateSimpleWindow_result env \<noteq> 0
      \<and> LinuxTerminalRenderer_initialize env
           (LinuxTerminalRenderer_new (XCreateSimpleWindow_result env)) = (True, r)
    \<longrightarrow> (\<exists>t1 p1 window.
          create_window Linux env ident 0 x y w h t p = (True, t1, p1)
          \<and> map_of (editors_map t1) ident = Some window
          \<and> platform_handle window = XCreateSimpleWindow_result env
          \<and> native p1 = native p
              @ [XCreateSimpleWindow (DefaultRootWindow env) x y w h,
                 XSelectInput (XCreateSimpleWindow_result env),
                 XMapWindow (XCreateSimpleWindow_result env), XFlush]))
   \<and> create_window Windows env ident 0 x y w h t p = (False, t, p)
   \<and> create_window Unsupported env ident 0 x y w h t p = (False, t, p)
   \<and> fst (ftxui_clap_guiSetParentWith tgt env ed (Some 0) s) = False"
proof (intro conjI impI)
  assume "g_display p \<and> XCreateSimpleWindow_result env \<noteq> 0
      \<and> LinuxTerminalRenderer_initialize env
           (LinuxTerminalRenderer_new (XCreateSimpleWindow_result env)) = (True, r)"
  then show "\<exists>t1 p1 window.
          create_window Linux env ident 0 x y w h t p = (True, t1, p1)
          \<and> map_of (editors_map t1) ident = Some window
          \<and> platform_handle window = XCreateSimpleWindow_result env
          \<and> native p1 = native p
              @ [XCreateSimpleWindow (DefaultRootWindow env) x y w h,
                 XSelectInput (XCreateSimpleWindow_result env),
                 XMapWindow (XCreateSimpleWindow_result env), XFlush]"
    by (simp add: create_window_def platform_create_window_def call_def Let_def
        update_conv')
next
  show "create_window Windows env ident 0 x y w h t p = (False, t, p)"
    by (simp add: create_window_def platform_create_window_def)
next
  show "create_window Unsupported env ident 0 x y w h t p = (False, t, p)"
    by (simp add: create_window_def platform_create_window_def)
next
  show "fst (ftxui_clap_guiSetParentWith tgt env ed (Some 0) s) = False"
    by (cases tgt)
       (simp_all add: ftxui_clap_guiSetParentWith_def Let_def
          split: option.splits prod.splits)
qed

theorem create_window_null_parent_witness:
  "g_display example_linux_platform \<and> XCreateSimpleWindow_result example_env \<noteq> 0
   \<and> LinuxTerminalRenderer_initialize example_env
        (LinuxTerminalRenderer_new (XCreateSimpleWindow_result example_env)) =
       (True, \<lparr>lr_window = 7, lr_xft_draw = True, lr_font = True, lr_gc = True,
               lr_char_width = 8, lr_char_height = 16, lr_width = 640, lr_height = 384\<rparr>)
   \<and> (\<exists>t1 p1 window.
         create_window Linux example_env ''2'' 0 0 0 640 384 embedded_terminal_new
           example_linux_platform = (True, t1, p1)
         \<and> map_of (editors_map t1) ''2'' = Some window
         \<and> platform_handle window = XCreateSimpleWindow_result example_env
         \<and> native p1 = native example_linux_platform
             @ [XCreateSimpleWindow (DefaultRootWindow example_env) 0 0 640 384,
                XSelectInput (XCreateSimpleWindow_result example_env),
                XMapWindow (XCreateSimpleWindow_result example_env), XFlush])
   \<and> create_window Windows example_env ''2'' 0 0 0 640 384 embedded_terminal_new
        example_windows_platform = (False, embedded_terminal_new, example_windows_platform)"
proof -
  have h: "g_display example_linux_platform \<and> XCreateSimpleWindow_result example_env \<noteq> 0
   \<and> LinuxTerminalRenderer_initialize example_env
        (LinuxTerminalRenderer_new (XCreateSimpleWindow_result example_env)) =
       (True, \<lparr>lr_window = 7, lr_xft_draw = True, lr_font = True, lr_gc = True,
               lr_char_width = 8, lr_char_height = 16, lr_width = 640, lr_height = 384\<rparr>)"
    by (simp add: example_linux_platform_def example_env_def initial_platform_def
        LinuxTerminalRenderer_initialize_def LinuxTerminalRenderer_new_def open_font_def)
  show ?thesis
    using h create_window_null_parent [of example_linux_platform example_env _ "''2''" 0 0
        640 384 embedded_terminal_new]
      create_window_null_parent [of example_windows_platform example_env _ "''2''" 0 0
        640 384 embedded_terminal_new]
    by blast
qed

theorem create_window_windows_counterexample:
  "g_class_registered example_windows_platform
   \<and> fst (create_window Windows example_env ''2'' 0 0 0 640 384 embedded_terminal_new
        example_windows_platform) = False
   \<and> native (snd (snd (create_window Windows example_env ''2'' 0 0 0 640 384
        embedded_terminal_new example_windows_platform))) = []"
  by (simp add: create_window_def platform_create_window_def example_windows_platform_def
      initial_platform_def)

subsection \<open>Guards\<close>

text \<open>
  Claim C10. \<^verbatim>\<open>ftxui_clap_guiCreateWith\<close> on a null editor returns false and leaves the
  state as it was. On an editor that is null or has no context,
  \<^verbatim>\<open>ftxui_clap_guiSetParentWith\<close>, \<^verbatim>\<open>ftxui_clap_guiSetSizeWith\<close>, \<^verbatim>\<open>ftxui_clap_guiShowWith\<close> and
  \<^verbatim>\<open>ftxui_clap_guiHideWith\<close> return false with the state as it was,
  \<^verbatim>\<open>ftxui_clap_guiGetSizeWith\<close> returns false with its width and height arguments as they
  were, and \<^verbatim>\<open>ftxui_clap_guiDestroyWith\<close> returns with the state as it was. The state
  comprises the globals, the editors with their contexts, the backend and both traces.
\<close>

theorem guards_leave_state:
  "ftxui_clap_guiCreateWith tgt env 0 s = (False, s)
   \<and> (ed = 0 \<or> ctx (editors s ed) = None \<longrightarrow>
        ftxui_clap_guiSetParentWith tgt env ed window s = (False, s)
        \<and> ftxui_clap_guiSetSizeWith ed w h s = (False, s)
        \<and> ftxui_clap_guiShowWith ed s = (False, s)
        \<and> ftxui_clap_guiHideWith ed s = (False, s)
        \<and> ftxui_clap_guiGetSizeWith ed w h s = (False, w, h)
        \<and> ftxui_clap_guiDestroyWith tgt ed s = s)"
  by (auto simp add: ftxui_clap_guiCreateWith_def ftxui_clap_guiSetParentWith_def
      ftxui_clap_guiSetSizeWith_def ftxui_clap_guiShowWith_def ftxui_clap_guiHideWith_def
      ftxui_clap_guiGetSizeWith_def ftxui_clap_guiDestroyWith_def)

theorem guards_leave_state_witness:
  "ftxui_clap_guiCreateWith Linux example_env 0 example_created = (False, example_created)
   \<and> ctx (editors example_created 3) = None
   \<and> ftxui_clap_guiSetParentWith Linux example_env 3 (Some 5) example_created
       = (False, example_created)
   \<and> ftxui_clap_guiSetSizeWith 3 640 384 example_created = (False, example_created)
   \<and> ftxui_clap_guiShowWith 3 example_created = (False, example_created)
   \<and> ftxui_clap_guiHideWith 3 example_created = (False, example_created)
   \<and> ftxui_clap_guiGetSizeWith 3 11 12 example_created = (False, 11, 12)
   \<and> ftxui_clap_guiDestroyWith Linux 3 example_created = example_created
   \<and> ftxui_clap_guiSetSizeWith 0 640 384 example_created = (False, example_created)
   \<and> ftxui_clap_guiGetSizeWith 0 11 12 example_created = (False, 11, 12)
   \<and> ftxui_clap_guiDestroyWith Linux 0 example_created = example_created"
proof -
  have h: "ctx (editors example_created 3) = None"
    by (simp add: example_created_def eval_defs)
  show ?thesis
    using h guards_leave_state [of Linux example_env example_created 3 "Some 5" 640 384]
      guards_leave_state [of Linux example_env example_created 3 "Some 5" 11 12]
      guards_leave_state [of Linux example_env example_created 0 "Some 5" 640 384]
      guards_leave_state [of Linux example_env example_created 0 "Some 5" 11 12]
    by simp
qed


subsection \<open>What one pass of the render loop leaves alone\<close>

lemma update_content_other:
  "ident' \<noteq> ident \<Longrightarrow>
   map_of (editors_map (fst (update_content tgt env ident txt t p))) ident' =
     map_of (editors_map t) ident'"
  by (simp add: update_content_def update_conv' Let_def split: option.splits)

lemma render_editor_skipped: "skipped s ed \<Longrightarrow> render_editor tgt env ed s = s"
  by (auto simp add: skipped_def render_editor_def split: option.splits)

lemma render_editor_cases:
  "render_editor tgt env ed s = s
   \<or> (\<exists>out t. g_terminal s = Some t
          \<and> render_editor tgt env ed s =
              s\<lparr>g_terminal :=
                   Some (fst (update_content tgt env (editor_id ed) out t (platform s))),
                 platform := snd (update_content tgt env (editor_id ed) out t (platform s))\<rparr>)"
proof (cases "skipped s ed \<or> g_terminal s = None")
  case True
  then have "render_editor tgt env ed s = s"
    by (auto simp add: skipped_def render_editor_def split: option.splits)
  then show ?thesis by simp
next
  case False
  then obtain c render t where "ed \<noteq> 0" "ctx (editors s ed) = Some c" "visible c"
    "component c = Some render" "g_terminal s = Some t"
    by (auto simp add: skipped_def split: option.splits)
  then show ?thesis
    by (intro disjI2 exI [of _ "render (cols c) (rows c)"] exI [of _ t])
       (simp add: render_editor_def Let_def split: prod.splits)
qed

lemma render_editor_other:
  assumes "ed' \<noteq> ed"
  shows "registry_record (g_terminal (render_editor tgt env ed' s)) (editor_id ed) =
     registry_record (g_terminal s) (editor_id ed)"
proof -
  have ne: "editor_id ed \<noteq> editor_id ed'"
    using assms by (simp add: editor_id_inject)
  from render_editor_cases [of tgt env ed' s] show ?thesis
  proof (elim disjE exE conjE)
    assume "render_editor tgt env ed' s = s"
    then show ?thesis by simp
  next
    fix out t
    assume t: "g_terminal s = Some t"
      and r: "render_editor tgt env ed' s =
              s\<lparr>g_terminal :=
                   Some (fst (update_content tgt env (editor_id ed') out t (platform s))),
                 platform := snd (update_content tgt env (editor_id ed') out t (platform s))\<rparr>"
    show ?thesis
      by (simp add: r t registry_record_def update_content_other [OF ne])
  qed
qed

lemma skipped_render_editor [simp]: "skipped (render_editor tgt env e s) ed = skipped s ed"
  by (simp add: skipped_def)

lemma render_editors_skipped:
  "skipped s ed \<Longrightarrow>
   registry_record (g_terminal (render_editors tgt env eds s)) (editor_id ed) =
     registry_record (g_terminal s) (editor_id ed)"
proof (induction eds arbitrary: s)
  case Nil
  then show ?case by simp
next
  case (Cons e eds)
  have sk: "skipped (render_editor tgt env e s) ed"
    using Cons.prems by simp
  show ?case
  proof (cases "e = ed")
    case True
    then show ?thesis
      using Cons.IH [OF Cons.prems] Cons.prems by (simp add: render_editor_skipped)
  next
    case False
    then show ?thesis
      using Cons.IH [OF sk] by (simp add: render_editor_other)
  qed
qed

text \<open>
  Claim C9. Let an editor be passed over by the render loop: it is null, or has no
  context, or its context is not visible or has no component. Then one pass through the
  loop body leaves the record that the global registry holds under the identifier of
  that editor as it was, its content included; and it changes no context of any
  editor, so the registries owned by the contexts stay as they were as well.
\<close>

theorem render_loop_skips_hidden:
  assumes "skipped s ed"
  shows "registry_record (g_terminal (render_loop_iteration tgt env s)) (editor_id ed)
           = registry_record (g_terminal s) (editor_id ed)
       \<and> map_option content
           (registry_record (g_terminal (render_loop_iteration tgt env s)) (editor_id ed))
           = map_option content (registry_record (g_terminal s) (editor_id ed))
       \<and> editors (render_loop_iteration tgt env s) = editors s
       \<and> leaked (render_loop_iteration tgt env s) = leaked s"
proof -
  let ?s1 = "process_parameter_updates s"
  have g: "g_terminal ?s1 = g_terminal s" and e: "editors ?s1 = editors s"
    and l: "leaked ?s1 = leaked s"
    by (simp_all add: process_parameter_updates_eq)
  have "skipped ?s1 ed"
    using assms by (simp add: skipped_def e)
  then have "registry_record (g_terminal (render_editors tgt env (g_active_editors ?s1) ?s1))
      (editor_id ed) = registry_record (g_terminal ?s1) (editor_id ed)"
    by (rule render_editors_skipped)
  then show ?thesis
    by (simp add: render_loop_iteration_def Let_def g e l)
qed

theorem render_loop_skips_hidden_witness:
  "skipped example_two_editors 3
   \<and> registry_record (g_terminal (render_loop_iteration Linux example_env example_two_editors))
        (editor_id 3) = registry_record (g_terminal example_two_editors) (editor_id 3)
   \<and> map_option content
        (registry_record (g_terminal (render_loop_iteration Linux example_env
           example_two_editors)) (editor_id 3)) = Some ''old3''
   \<and> map_option content
        (registry_record (g_terminal (render_loop_iteration Linux example_env
           example_two_editors)) (editor_id 2)) = Some ''ui''
   \<and> editors (render_loop_iteration Linux example_env example_two_editors)
       = editors example_two_editors
   \<and> leaked (render_loop_iteration Linux example_env example_two_editors)
       = leaked example_two_editors"
proof -
  have h: "skipped example_two_editors 3"
    by (simp add: skipped_def example_two_editors_def FTXUIContext_new_def)
  have before: "map_option content (registry_record (g_terminal example_two_editors)
      (editor_id 3)) = Some ''old3''"
    by (simp add: registry_record_def example_two_editors_def editor_id_3)
  have shown: "map_option content
        (registry_record (g_terminal (render_loop_iteration Linux example_env
           example_two_editors)) (editor_id 2)) = Some ''ui''"
    by (simp add: render_loop_iteration_def process_parameter_updates_eq delivered_def
        render_editor_def update_content_def platform_update_window_def
        example_two_editors_def example_editor_def example_linux_platform_def
        initial_platform_def FTXUIContext_new_def registry_record_def editor_id_2 editor_id_3
        Let_def)
  show ?thesis
    using h before shown render_loop_skips_hidden [OF h, of Linux example_env]
    by simp
qed


subsection \<open>What each operation does to the contexts, the active list and the registries\<close>

lemma registry_record_None: "registry_record reg ident = None \<longleftrightarrow> ident \<notin> keys_of reg"
  by (simp add: registry_record_def keys_of_def map_of_eq_None_iff split: option.splits)

lemma initialize_editors [simp]: "editors (snd (initialize tgt env s)) = editors s"
  by (simp add: initialize_def Let_def split: prod.splits bool.splits)

lemma initialize_active [simp]:
  "g_active_editors (snd (initialize tgt env s)) = g_active_editors s"
  by (simp add: initialize_def Let_def split: prod.splits bool.splits)

lemma initialize_leaked [simp]: "leaked (snd (initialize tgt env s)) = leaked s"
  by (simp add: initialize_def Let_def split: prod.splits bool.splits)

lemma initialize_keys: "keys_of (g_terminal (snd (initialize tgt env s))) = keys_of (g_terminal s)"
  by (auto simp add: initialize_def Let_def keys_of_def embedded_terminal_new_def
      split: prod.splits bool.splits option.splits)

lemma guiCreateWith_shape:
  "(\<not> fst (ftxui_clap_guiCreateWith tgt env ed s)
      \<and> editors (snd (ftxui_clap_guiCreateWith tgt env ed s)) = editors s
      \<and> g_active_editors (snd (ftxui_clap_guiCreateWith tgt env ed s)) = g_active_editors s
      \<and> leaked (snd (ftxui_clap_guiCreateWith tgt env ed s)) = leaked s)
   \<or> (fst (ftxui_clap_guiCreateWith tgt env ed s) \<and> ed \<noteq> 0
      \<and> editors (snd (ftxui_clap_guiCreateWith tgt env ed s)) =
           set_ctx ed (Some ((FTXUIContext_new ed)
                               \<lparr>component := onCreateComponent (editors s ed)\<rparr>)) s
      \<and> g_active_editors (snd (ftxui_clap_guiCreateWith tgt env ed s)) =
           g_active_editors s @ [ed]
      \<and> leaked (snd (ftxui_clap_guiCreateWith tgt env ed s)) =
           (case ctx (editors s ed) of None \<Rightarrow> leaked s | Some old \<Rightarrow> old # leaked s))"
proof (cases "ed = 0")
  case True
  then show ?thesis by (simp add: ftxui_clap_guiCreateWith_def)
next
  case False
  obtain b s1 where i: "initialize tgt env s = (b, s1)" by (cases "initialize tgt env s")
  have e: "editors s1 = editors s" and a: "g_active_editors s1 = g_active_editors s"
    and l: "leaked s1 = leaked s"
    using initialize_editors [of tgt env s] initialize_active [of tgt env s]
      initialize_leaked [of tgt env s] by (simp_all add: i)
  show ?thesis
  proof (cases b)
    case True
    then show ?thesis
      using False
      by (intro disjI2)
         (simp add: ftxui_clap_guiCreateWith_def i e a l Let_def register_editor_def hook_def
            set_ctx_def split: option.splits)
  next
    case False
    then show ?thesis
      by (simp add: ftxui_clap_guiCreateWith_def i e a l)
  qed
qed

lemma guiCreateWith_keys:
  "keys_of (g_terminal (snd (ftxui_clap_guiCreateWith tgt env ed s))) = keys_of (g_terminal s)"
proof -
  obtain b s1 where i: "initialize tgt env s = (b, s1)" by (cases "initialize tgt env s")
  have "keys_of (g_terminal s1) = keys_of (g_terminal s)"
    using initialize_keys [of tgt env s] by (simp add: i)
  then show ?thesis
    by (cases b)
       (simp_all add: ftxui_clap_guiCreateWith_def i Let_def register_editor_def hook_def)
qed

lemma ctx_step_refl: "ctx_step ed s s"
  by (auto simp add: ctx_step_def split: option.splits)

lemma create_window_keys:
  "fst ` set (editors_map (fst (snd (create_window tgt env ident ph x y w h t p))))
     \<subseteq> insert ident (fst ` set (editors_map t))"
  by (simp add: create_window_def Let_def dom_update subset_insertI
      split: prod.splits bool.splits)

lemma guiSetParentWith_result:
  assumes "ed \<noteq> 0" and "ctx (editors s ed) = Some c" and "window = Some handle"
  shows "\<exists>t1 p1. snd (ftxui_clap_guiSetParentWith tgt env ed window s) =
          s\<lparr>platform := p1,
            editors := (editors s)(ed := (editors s ed)\<lparr>ctx := Some (c\<lparr>terminal := Some t1\<rparr>)\<rparr>)\<rparr>
        \<and> fst ` set (editors_map t1) \<subseteq> insert (editor_id ed) (keys_of (terminal c))"
proof -
  define r where "r = (case terminal c of
                       Some t0 \<Rightarrow> (True, t0, platform s)
                     | None \<Rightarrow>
                         (case embedded_terminal_initialize tgt env (platform s) of
                            (b, p) \<Rightarrow> (b, embedded_terminal_new, p)))"
  obtain ok t p1 where r: "r = (ok, t, p1)" by (cases r)
  have kt: "fst ` set (editors_map t) = keys_of (terminal c)"
    using r unfolding r_def
    by (auto simp add: keys_of_def embedded_terminal_new_def split: option.splits prod.splits)
  define ph where "ph = (case tgt of Unsupported \<Rightarrow> 0 | _ \<Rightarrow> handle)"
  define cw where "cw = create_window tgt env (editor_id ed) ph 0 0
      (int32_wrap (cols c * 8)) (int32_wrap (rows c * 16)) t p1"
  have kc: "fst ` set (editors_map (fst (snd cw))) \<subseteq> insert (editor_id ed) (keys_of (terminal c))"
    unfolding cw_def using create_window_keys [of tgt env "editor_id ed" ph 0 0 _ _ t p1]
    by (simp add: kt)
  let ?store = "\<lambda>t1 p1. s\<lparr>platform := p1,
            editors := (editors s)(ed := (editors s ed)\<lparr>ctx := Some (c\<lparr>terminal := Some t1\<rparr>)\<rparr>)\<rparr>"
  have res: "snd (ftxui_clap_guiSetParentWith tgt env ed window s) =
      (if ok \<and> ph \<noteq> 0 then ?store (fst (snd cw)) (snd (snd cw)) else ?store t p1)"
    using assms r unfolding r_def cw_def ph_def
    by (simp add: ftxui_clap_guiSetParentWith_def Let_def split: prod.splits)
  show ?thesis
  proof (cases "ok \<and> ph \<noteq> 0")
    case True
    then show ?thesis using res kc by auto
  next
    case False
    then show ?thesis using res kt by auto
  qed
qed

lemma guiSetParentWith_ctx_step:
  "ctx_step ed s (snd (ftxui_clap_guiSetParentWith tgt env ed window s))"
proof (cases "ed = 0 \<or> ctx (editors s ed) = None \<or> window = None")
  case True
  then have "snd (ftxui_clap_guiSetParentWith tgt env ed window s) = s"
    by (auto simp add: ftxui_clap_guiSetParentWith_def split: option.splits)
  then show ?thesis by (simp add: ctx_step_refl)
next
  case False
  then obtain c handle where ed: "ed \<noteq> 0" and c: "ctx (editors s ed) = Some c"
    and w: "window = Some handle" by auto
  from guiSetParentWith_result [OF ed c w, of tgt env] obtain t1 p1
    where "snd (ftxui_clap_guiSetParentWith tgt env ed window s) =
          s\<lparr>platform := p1,
            editors := (editors s)(ed := (editors s ed)\<lparr>ctx := Some (c\<lparr>terminal := Some t1\<rparr>)\<rparr>)\<rparr>"
      and "fst ` set (editors_map t1) \<subseteq> insert (editor_id ed) (keys_of (terminal c))"
    by blast
  then show ?thesis
    using c by (simp add: ctx_step_def keys_of_def)
qed

lemma guiSetSizeWith_ctx_step: "ctx_step ed s (snd (ftxui_clap_guiSetSizeWith ed w h s))"
  by (auto simp add: ftxui_clap_guiSetSizeWith_def ctx_step_def Let_def
      split: option.splits prod.splits)

lemma guiShowWith_ctx_step: "ctx_step ed s (snd (ftxui_clap_guiShowWith ed s))"
  by (auto simp add: ftxui_clap_guiShowWith_def ctx_step_def split: option.splits)

lemma guiHideWith_ctx_step: "ctx_step ed s (snd (ftxui_clap_guiHideWith ed s))"
  by (auto simp add: ftxui_clap_guiHideWith_def ctx_step_def split: option.splits)

lemma guiDestroyWith_noop:
  "ed = 0 \<or> ctx (editors s ed) = None \<Longrightarrow> ftxui_clap_guiDestroyWith tgt ed s = s"
  by (auto simp add: ftxui_clap_guiDestroyWith_def)

lemma guiDestroyWith_fields:
  assumes "ed \<noteq> 0" and "ctx (editors s ed) \<noteq> None"
  shows "editors (ftxui_clap_guiDestroyWith tgt ed s) = set_ctx ed None s"
    and "g_active_editors (ftxui_clap_guiDestroyWith tgt ed s) =
           removeAll ed (g_active_editors s)"
    and "leaked (ftxui_clap_guiDestroyWith tgt ed s) = leaked s"
    and "g_terminal (ftxui_clap_guiDestroyWith tgt ed s) = g_terminal s"
  using assms
  by (auto simp add: ftxui_clap_guiDestroyWith_def Let_def hook_def unregister_editor_def
      set_ctx_def split: option.splits prod.splits)

lemma update_content_keys:
  "fst ` set (editors_map (fst (update_content tgt env ident out t p))) =
     fst ` set (editors_map t)"
proof (cases "map_of (editors_map t) ident")
  case None
  then show ?thesis by (simp add: update_content_def)
next
  case (Some window)
  then have "ident \<in> fst ` set (editors_map t)"
    by (metis map_of_eq_None_iff option.distinct(1))
  then show ?thesis
    using Some by (auto simp add: update_content_def Let_def dom_update)
qed

lemma render_editor_keys [simp]:
  "keys_of (g_terminal (render_editor tgt env ed s)) = keys_of (g_terminal s)"
proof -
  from render_editor_cases [of tgt env ed s] show ?thesis
  proof (elim disjE exE conjE)
    assume "render_editor tgt env ed s = s"
    then show ?thesis by simp
  next
    fix out t
    assume t: "g_terminal s = Some t"
      and r: "render_editor tgt env ed s =
              s\<lparr>g_terminal :=
                   Some (fst (update_content tgt env (editor_id ed) out t (platform s))),
                 platform := snd (update_content tgt env (editor_id ed) out t (platform s))\<rparr>"
    show ?thesis
      by (simp add: r t keys_of_def update_content_keys)
  qed
qed

lemma render_editors_ctx_step: "ctx_step ed s (render_editors tgt env eds s)"
proof (induction eds arbitrary: s)
  case Nil
  then show ?case by (simp add: ctx_step_refl)
next
  case (Cons e eds)
  have "ctx_step ed (render_editor tgt env e s)
      (render_editors tgt env eds (render_editor tgt env e s))"
    by (rule Cons.IH)
  then show ?case
    by (simp add: ctx_step_def split: option.splits)
qed

lemma render_loop_iteration_ctx_step: "ctx_step ed s (render_loop_iteration tgt env s)"
proof -
  let ?s1 = "process_parameter_updates s"
  have "ctx_step ed ?s1 (render_editors tgt env (g_active_editors ?s1) ?s1)"
    by (rule render_editors_ctx_step)
  then show ?thesis
    by (simp add: render_loop_iteration_def Let_def ctx_step_def
        process_parameter_updates_eq split: option.splits)
qed


subsection \<open>Invariants of the sequences of operations\<close>

lemma ctx_step_live:
  assumes "ctx_step ed s s'" and "live_registered s"
  shows "live_registered s'"
  unfolding live_registered_def
proof
  fix e
  assume "e \<in> set (g_active_editors s')"
  then have "e \<noteq> 0 \<and> ctx (editors s e) \<noteq> None"
    using assms by (simp add: ctx_step_def live_registered_def)
  then show "e \<noteq> 0 \<and> ctx (editors s' e) \<noteq> None"
    using assms(1) by (cases "e = ed") (auto simp add: ctx_step_def split: option.splits)
qed

lemma ctx_step_own_keys:
  assumes "ctx_step ed s s'" and "own_keys s"
  shows "own_keys s'"
  unfolding own_keys_def
proof (intro conjI allI impI)
  show "keys_of (g_terminal s') = {}"
    using assms by (simp add: ctx_step_def own_keys_def)
next
  fix e c'
  assume c': "ctx (editors s' e) = Some c'"
  show "keys_of (terminal c') \<subseteq> {editor_id e}"
  proof (cases "e = ed")
    case True
    then obtain c where c: "ctx (editors s ed) = Some c"
      and k: "keys_of (terminal c') \<subseteq> insert (editor_id ed) (keys_of (terminal c))"
      using assms(1) c' by (auto simp add: ctx_step_def)
    have "keys_of (terminal c) \<subseteq> {editor_id ed}"
      using assms(2) c by (simp add: own_keys_def)
    then show ?thesis
      using k True by blast
  next
    case False
    then have "editors s' e = editors s e"
      using assms(1) by (simp add: ctx_step_def)
    then show ?thesis
      using assms(2) c' by (simp add: own_keys_def)
  qed
qed

lemma ctx_step_well_formed:
  assumes "ctx_step ed s s'" and "well_formed s"
  shows "well_formed s'"
proof -
  have "ctx (editors s' 0) = None"
    using assms
    by (cases "ed = 0") (auto simp add: well_formed_def ctx_step_def split: option.splits)
  then show ?thesis
    using assms ctx_step_live [OF assms(1)] ctx_step_own_keys [OF assms(1)]
    by (simp add: well_formed_def ctx_step_def)
qed

lemma guiCreateWith_live:
  assumes "live_registered s"
  shows "live_registered (snd (ftxui_clap_guiCreateWith tgt env ed s))"
  using guiCreateWith_shape [of tgt env ed s] assms
  by (auto simp add: live_registered_def set_ctx_def)

lemma guiCreateWith_well_formed:
  assumes "well_formed s" and "ctx (editors s ed) = None"
  shows "well_formed (snd (ftxui_clap_guiCreateWith tgt env ed s))"
proof -
  let ?s' = "snd (ftxui_clap_guiCreateWith tgt env ed s)"
  have notin: "ed \<notin> set (g_active_editors s)"
    using assms by (auto simp add: well_formed_def live_registered_def)
  have k: "keys_of (g_terminal ?s') = {}"
    using assms(1) by (simp add: guiCreateWith_keys well_formed_def own_keys_def)
  from guiCreateWith_shape [of tgt env ed s] show ?thesis
  proof (elim disjE conjE)
    assume "editors ?s' = editors s" "g_active_editors ?s' = g_active_editors s"
      "leaked ?s' = leaked s"
    then show ?thesis
      using assms(1) k by (simp add: well_formed_def live_registered_def own_keys_def)
  next
    assume ne: "ed \<noteq> 0"
      and e: "editors ?s' = set_ctx ed (Some ((FTXUIContext_new ed)
                               \<lparr>component := onCreateComponent (editors s ed)\<rparr>)) s"
      and a: "g_active_editors ?s' = g_active_editors s @ [ed]"
      and l: "leaked ?s' = (case ctx (editors s ed) of None \<Rightarrow> leaked s
                            | Some old \<Rightarrow> old # leaked s)"
    have "distinct (g_active_editors ?s')"
      using assms(1) notin by (simp add: a well_formed_def)
    moreover have "live_registered ?s'"
      using assms(1) ne by (auto simp add: a e well_formed_def live_registered_def set_ctx_def)
    moreover have "leaked ?s' = []"
      using assms by (simp add: l well_formed_def)
    moreover have "own_keys ?s'"
      using assms(1) k
      by (auto simp add: e well_formed_def own_keys_def set_ctx_def FTXUIContext_new_def
          keys_of_def)
    moreover have "ctx (editors ?s' 0) = None"
      using assms(1) ne by (simp add: e well_formed_def set_ctx_def)
    ultimately show ?thesis by (simp add: well_formed_def)
  qed
qed

lemma guiDestroyWith_live:
  assumes "live_registered s"
  shows "live_registered (ftxui_clap_guiDestroyWith tgt ed s)"
proof (cases "ed = 0 \<or> ctx (editors s ed) = None")
  case True
  then show ?thesis using assms by (simp add: guiDestroyWith_noop)
next
  case False
  then show ?thesis
    using assms by (auto simp add: guiDestroyWith_fields live_registered_def set_ctx_def)
qed

lemma own_keys_set_ctx_None:
  assumes "own_keys s" and "editors s' = set_ctx ed None s" and "g_terminal s' = g_terminal s"
  shows "own_keys s'"
  unfolding own_keys_def
proof (intro conjI allI impI)
  show "keys_of (g_terminal s') = {}"
    using assms by (simp add: own_keys_def)
next
  fix e c
  assume "ctx (editors s' e) = Some c"
  then have "ctx (editors s e) = Some c"
    using assms(2) by (cases "e = ed") (simp_all add: set_ctx_def)
  then show "keys_of (terminal c) \<subseteq> {editor_id e}"
    using assms(1) by (simp add: own_keys_def)
qed

lemma guiDestroyWith_well_formed:
  assumes "well_formed s"
  shows "well_formed (ftxui_clap_guiDestroyWith tgt ed s)"
proof (cases "ed = 0 \<or> ctx (editors s ed) = None")
  case True
  then show ?thesis using assms by (simp add: guiDestroyWith_noop)
next
  case False
  let ?s' = "ftxui_clap_guiDestroyWith tgt ed s"
  have e: "editors ?s' = set_ctx ed None s"
    and a: "g_active_editors ?s' = removeAll ed (g_active_editors s)"
    and l: "leaked ?s' = leaked s" and g: "g_terminal ?s' = g_terminal s"
    using False by (simp_all add: guiDestroyWith_fields)
  have "live_registered ?s'"
    using assms by (auto simp add: a e well_formed_def live_registered_def set_ctx_def)
  moreover have "own_keys ?s'"
    using assms own_keys_set_ctx_None [OF _ e g] by (simp add: well_formed_def)
  moreover have "ctx (editors ?s' 0) = None"
    using assms by (simp add: e well_formed_def set_ctx_def)
  ultimately show ?thesis
    using assms by (simp add: well_formed_def a l distinct_removeAll)
qed

lemma step_live: "live_registered s \<Longrightarrow> live_registered (step tgt op s)"
proof (cases op)
  case (GuiCreate env ed)
  then show "live_registered s \<Longrightarrow> ?thesis" by (simp add: guiCreateWith_live)
next
  case (GuiDestroy ed)
  then show "live_registered s \<Longrightarrow> ?thesis" by (simp add: guiDestroyWith_live)
next
  case (GuiSetParent env ed window)
  then show "live_registered s \<Longrightarrow> ?thesis"
    using ctx_step_live [OF guiSetParentWith_ctx_step] by simp
next
  case (GuiSetSize ed w h)
  then show "live_registered s \<Longrightarrow> ?thesis"
    using ctx_step_live [OF guiSetSizeWith_ctx_step] by simp
next
  case (GuiShow ed)
  then show "live_registered s \<Longrightarrow> ?thesis"
    using ctx_step_live [OF guiShowWith_ctx_step] by simp
next
  case (GuiHide ed)
  then show "live_registered s \<Longrightarrow> ?thesis"
    using ctx_step_live [OF guiHideWith_ctx_step] by simp
next
  case (GuiGetSize ed w h)
  then show "live_registered s \<Longrightarrow> ?thesis" by simp
next
  case (QueueParameterUpdate pid v ed)
  then show "live_registered s \<Longrightarrow> ?thesis"
    by (simp add: queue_parameter_update_def live_registered_def)
next
  case (RenderLoopIteration env)
  then show "live_registered s \<Longrightarrow> ?thesis"
    using ctx_step_live [OF render_loop_iteration_ctx_step] by simp
qed

lemma step_well_formed:
  assumes "well_formed s"
    and "case op of GuiCreate env ed \<Rightarrow> ctx (editors s ed) = None | _ \<Rightarrow> True"
  shows "well_formed (step tgt op s)"
proof (cases op)
  case (GuiCreate env ed)
  then show ?thesis using assms by (simp add: guiCreateWith_well_formed)
next
  case (GuiDestroy ed)
  then show ?thesis using assms by (simp add: guiDestroyWith_well_formed)
next
  case (GuiSetParent env ed window)
  then show ?thesis
    using ctx_step_well_formed [OF guiSetParentWith_ctx_step assms(1)] by simp
next
  case (GuiSetSize ed w h)
  then show ?thesis
    using ctx_step_well_formed [OF guiSetSizeWith_ctx_step assms(1)] by simp
next
  case (GuiShow ed)
  then show ?thesis
    using ctx_step_well_formed [OF guiShowWith_ctx_step assms(1)] by simp
next
  case (GuiHide ed)
  then show ?thesis
    using ctx_step_well_formed [OF guiHideWith_ctx_step assms(1)] by simp
next
  case (GuiGetSize ed w h)
  then show ?thesis using assms by simp
next
  case (QueueParameterUpdate pid v ed)
  then show ?thesis
    using assms(1)
    by (simp add: queue_parameter_update_def well_formed_def live_registered_def own_keys_def)
next
  case (RenderLoopIteration env)
  then show ?thesis
    using ctx_step_well_formed [OF render_loop_iteration_ctx_step assms(1)] by simp
qed

lemma run_append: "run tgt (ops @ ops') s = run tgt ops' (run tgt ops s)"
  by (induction ops arbitrary: s) simp_all

lemma run_live: "live_registered s \<Longrightarrow> live_registered (run tgt ops s)"
  by (induction ops arbitrary: s) (simp_all add: step_live)

lemma run_well_formed:
  "well_formed s \<Longrightarrow> no_recreate tgt ops s \<Longrightarrow> well_formed (run tgt ops s)"
proof (induction ops arbitrary: s)
  case Nil
  then show ?case by simp
next
  case (Cons op ops)
  then show ?case
    using step_well_formed [of s op tgt] by simp
qed

lemma no_recreate_take: "no_recreate tgt ops s \<Longrightarrow> no_recreate tgt (take n ops) s"
proof (induction ops arbitrary: s n)
  case Nil
  then show ?case by simp
next
  case (Cons op ops)
  then show ?case by (cases n) simp_all
qed

lemma initial_live: "live_registered (initial_state eds)"
  by (simp add: live_registered_def initial_state_def)

lemma initial_well_formed: "well_formed (initial_state eds)"
  by (simp add: well_formed_def live_registered_def own_keys_def keys_of_def initial_state_def)

lemma destroyed_not_active:
  assumes "live_registered s"
  shows "ed \<notin> set (g_active_editors (ftxui_clap_guiDestroyWith tgt ed s))"
proof (cases "ed = 0 \<or> ctx (editors s ed) = None")
  case True
  then show ?thesis
    using assms by (auto simp add: guiDestroyWith_noop live_registered_def)
next
  case False
  then show ?thesis by (simp add: guiDestroyWith_fields)
qed

lemma ctx_step_registry_inv:
  assumes "ctx_step e s s'" and "registry_inv ed s"
  shows "registry_inv ed s'"
proof -
  have "ctx (editors s' 0) = None"
    using assms
    by (cases "e = 0") (auto simp add: registry_inv_def ctx_step_def split: option.splits)
  then show ?thesis
    using assms ctx_step_own_keys [OF assms(1)]
    by (simp add: registry_inv_def ctx_step_def)
qed

lemma guiCreateWith_registry_inv:
  assumes "registry_inv ed s"
    and "e \<noteq> ed \<or> (case ctx (editors s ed) of
                       None \<Rightarrow> True
                     | Some c \<Rightarrow> registry_record (terminal c) (editor_id ed) = None)"
  shows "registry_inv ed (snd (ftxui_clap_guiCreateWith tgt env e s))"
proof -
  let ?s' = "snd (ftxui_clap_guiCreateWith tgt env e s)"
  have k: "keys_of (g_terminal ?s') = {}"
    using assms(1) by (simp add: guiCreateWith_keys registry_inv_def own_keys_def)
  from guiCreateWith_shape [of tgt env e s] show ?thesis
  proof (elim disjE conjE)
    assume "editors ?s' = editors s" "g_active_editors ?s' = g_active_editors s"
      "leaked ?s' = leaked s"
    then show ?thesis
      using assms(1) k by (simp add: registry_inv_def own_keys_def)
  next
    assume ne: "e \<noteq> 0"
      and ed: "editors ?s' = set_ctx e (Some ((FTXUIContext_new e)
                               \<lparr>component := onCreateComponent (editors s e)\<rparr>)) s"
      and l: "leaked ?s' = (case ctx (editors s e) of None \<Rightarrow> leaked s
                            | Some old \<Rightarrow> old # leaked s)"
    have "own_keys ?s'"
      using assms(1) k
      by (auto simp add: ed registry_inv_def own_keys_def set_ctx_def FTXUIContext_new_def
          keys_of_def)
    moreover have "ctx (editors ?s' 0) = None"
      using assms(1) ne by (simp add: ed registry_inv_def set_ctx_def)
    moreover have "\<forall>c \<in> set (leaked ?s'). registry_record (terminal c) (editor_id ed) = None"
    proof (cases "ctx (editors s e)")
      case None
      then show ?thesis using assms(1) by (simp add: l registry_inv_def)
    next
      case (Some old)
      have "registry_record (terminal old) (editor_id ed) = None"
      proof (cases "e = ed")
        case True
        then show ?thesis using assms(2) Some by simp
      next
        case False
        have "keys_of (terminal old) \<subseteq> {editor_id e}"
          using assms(1) Some by (simp add: registry_inv_def own_keys_def)
        then show ?thesis
          using False by (auto simp add: registry_record_None editor_id_inject)
      qed
      then show ?thesis using assms(1) Some by (simp add: l registry_inv_def)
    qed
    ultimately show ?thesis by (simp add: registry_inv_def)
  qed
qed

lemma guiDestroyWith_registry_inv:
  assumes "registry_inv ed s"
  shows "registry_inv ed (ftxui_clap_guiDestroyWith tgt e s)"
proof (cases "e = 0 \<or> ctx (editors s e) = None")
  case True
  then show ?thesis using assms by (simp add: guiDestroyWith_noop)
next
  case False
  let ?s' = "ftxui_clap_guiDestroyWith tgt e s"
  have e: "editors ?s' = set_ctx e None s"
    and l: "leaked ?s' = leaked s" and g: "g_terminal ?s' = g_terminal s"
    using False by (simp_all add: guiDestroyWith_fields)
  have "own_keys ?s'"
    using assms own_keys_set_ctx_None [OF _ e g] by (simp add: registry_inv_def)
  moreover have "ctx (editors ?s' 0) = None"
    using assms by (simp add: e registry_inv_def set_ctx_def)
  ultimately show ?thesis
    using assms by (simp add: registry_inv_def l)
qed

lemma step_registry_inv:
  assumes "registry_inv ed s"
    and "case op of
           GuiCreate env e \<Rightarrow>
             e \<noteq> ed
             \<or> (case ctx (editors s ed) of
                   None \<Rightarrow> True
                 | Some c \<Rightarrow> registry_record (terminal c) (editor_id ed) = None)
         | _ \<Rightarrow> True"
  shows "registry_inv ed (step tgt op s)"
proof (cases op)
  case (GuiCreate env e)
  then show ?thesis using assms by (simp add: guiCreateWith_registry_inv)
next
  case (GuiDestroy e)
  then show ?thesis using assms by (simp add: guiDestroyWith_registry_inv)
next
  case (GuiSetParent env e window)
  then show ?thesis
    using ctx_step_registry_inv [OF guiSetParentWith_ctx_step assms(1)] by simp
next
  case (GuiSetSize e w h)
  then show ?thesis
    using ctx_step_registry_inv [OF guiSetSizeWith_ctx_step assms(1)] by simp
next
  case (GuiShow e)
  then show ?thesis
    using ctx_step_registry_inv [OF guiShowWith_ctx_step assms(1)] by simp
next
  case (GuiHide e)
  then show ?thesis
    using ctx_step_registry_inv [OF guiHideWith_ctx_step assms(1)] by simp
next
  case (GuiGetSize e w h)
  then show ?thesis using assms by simp
next
  case (QueueParameterUpdate pid v e)
  then show ?thesis
    using assms(1)
    by (simp add: queue_parameter_update_def registry_inv_def own_keys_def)
next
  case (RenderLoopIteration env)
  then show ?thesis
    using ctx_step_registry_inv [OF render_loop_iteration_ctx_step assms(1)] by simp
qed

lemma run_registry_inv:
  "registry_inv ed s \<Longrightarrow> no_recreate_of tgt ed ops s \<Longrightarrow> registry_inv ed (run tgt ops s)"
proof (induction ops arbitrary: s)
  case Nil
  then show ?case by simp
next
  case (Cons op ops)
  then show ?case
    using step_registry_inv [of ed s op tgt] by simp
qed

lemma initial_registry_inv: "registry_inv ed (initial_state eds)"
  by (simp add: registry_inv_def own_keys_def keys_of_def initial_state_def)

lemma destroyed_no_record:
  assumes "registry_inv ed s"
  shows "no_record (ftxui_clap_guiDestroyWith tgt ed s) (editor_id ed)"
proof -
  let ?s' = "ftxui_clap_guiDestroyWith tgt ed s"
  have inv: "registry_inv ed ?s'"
    using assms by (rule guiDestroyWith_registry_inv)
  have none: "ctx (editors ?s' ed) = None"
  proof (cases "ed = 0 \<or> ctx (editors s ed) = None")
    case True
    have "ctx (editors s 0) = None"
      using assms by (simp add: registry_inv_def)
    then show ?thesis using True by (auto simp add: guiDestroyWith_noop)
  next
    case False
    then show ?thesis by (simp add: guiDestroyWith_fields set_ctx_def)
  qed
  show ?thesis
    unfolding no_record_def
  proof (intro conjI allI impI)
    show "registry_record (g_terminal ?s') (editor_id ed) = None"
      using inv by (simp add: registry_record_None registry_inv_def own_keys_def)
  next
    fix e c
    assume c: "ctx (editors ?s' e) = Some c"
    then have "e \<noteq> ed" using none by auto
    moreover have "keys_of (terminal c) \<subseteq> {editor_id e}"
      using inv c by (simp add: registry_inv_def own_keys_def)
    ultimately show "registry_record (terminal c) (editor_id ed) = None"
      by (auto simp add: registry_record_None editor_id_inject)
  next
    show "\<forall>c \<in> set (leaked ?s'). registry_record (terminal c) (editor_id ed) = None"
      using inv by (simp add: registry_inv_def)
  qed
qed

subsection \<open>The active editors and the registries over sequences of operations\<close>

text \<open>
  Claim C8, as far as the code has it. Take any sequence of operations, started when
  the library is loaded, in which \<^verbatim>\<open>ftxui_clap_guiCreateWith\<close> is never called on an
  editor whose context is still set. Then at every point of the sequence the list of
  active editors holds no editor twice, and no context has been left behind, so that
  there is one context for each editor that has one. A successful
  \<^verbatim>\<open>ftxui_clap_guiCreateWith\<close> appends the editor to the list of active editors in every
  case, whether the editor is in the list already or not.
\<close>

theorem active_editors_distinct:
  "(no_recreate tgt ops (initial_state eds) \<longrightarrow>
      distinct (g_active_editors (run tgt (take n ops) (initial_state eds)))
      \<and> leaked (run tgt (take n ops) (initial_state eds)) = [])
   \<and> (fst (ftxui_clap_guiCreateWith tgt env ed s) \<longrightarrow>
        g_active_editors (snd (ftxui_clap_guiCreateWith tgt env ed s)) =
          g_active_editors s @ [ed])"
proof (intro conjI impI)
  assume "no_recreate tgt ops (initial_state eds)"
  then have "no_recreate tgt (take n ops) (initial_state eds)"
    by (rule no_recreate_take)
  then have wf: "well_formed (run tgt (take n ops) (initial_state eds))"
    using initial_well_formed by (rule run_well_formed [rotated])
  show "distinct (g_active_editors (run tgt (take n ops) (initial_state eds)))"
    using wf by (simp add: well_formed_def)
  show "leaked (run tgt (take n ops) (initial_state eds)) = []"
    using wf by (simp add: well_formed_def)
next
  assume "fst (ftxui_clap_guiCreateWith tgt env ed s)"
  then show "g_active_editors (snd (ftxui_clap_guiCreateWith tgt env ed s)) =
      g_active_editors s @ [ed]"
    using guiCreateWith_shape [of tgt env ed s] by auto
qed

theorem active_editors_distinct_witness:
  "no_recreate Linux
     [GuiCreate example_env 2, GuiCreate example_env 3, GuiDestroy 2, GuiCreate example_env 2]
     (initial_state (\<lambda>ed. example_editor))
   \<and> distinct (g_active_editors (run Linux
       (take 4 [GuiCreate example_env 2, GuiCreate example_env 3, GuiDestroy 2,
                GuiCreate example_env 2])
       (initial_state (\<lambda>ed. example_editor))))
   \<and> leaked (run Linux
       (take 4 [GuiCreate example_env 2, GuiCreate example_env 3, GuiDestroy 2,
                GuiCreate example_env 2])
       (initial_state (\<lambda>ed. example_editor))) = []
   \<and> g_active_editors (run Linux
       [GuiCreate example_env 2, GuiCreate example_env 3, GuiDestroy 2,
        GuiCreate example_env 2]
       (initial_state (\<lambda>ed. example_editor))) = [3, 2]
   \<and> fst (ftxui_clap_guiCreateWith Linux example_env 2 example_created)
   \<and> g_active_editors (snd (ftxui_clap_guiCreateWith Linux example_env 2 example_created))
       = g_active_editors example_created @ [2]"
proof -
  have h: "no_recreate Linux
     [GuiCreate example_env 2, GuiCreate example_env 3, GuiDestroy 2, GuiCreate example_env 2]
     (initial_state (\<lambda>ed. example_editor))"
    by (simp add: eval_defs)
  have v: "g_active_editors (run Linux
       [GuiCreate example_env 2, GuiCreate example_env 3, GuiDestroy 2,
        GuiCreate example_env 2]
       (initial_state (\<lambda>ed. example_editor))) = [3, 2]"
    by (simp add: eval_defs)
  have c: "fst (ftxui_clap_guiCreateWith Linux example_env 2 example_created)"
    by (simp add: example_created_def eval_defs)
  show ?thesis
    using h v c
      active_editors_distinct [of Linux "[GuiCreate example_env 2, GuiCreate example_env 3,
        GuiDestroy 2, GuiCreate example_env 2]" "\<lambda>ed. example_editor" 4 example_env 2
        example_created]
    by blast
qed

theorem active_editors_duplicate_counterexample:
  "g_active_editors (run Linux [GuiCreate example_env 2, GuiCreate example_env 2]
      example_state) = [2, 2]
   \<and> \<not> distinct (g_active_editors (run Linux [GuiCreate example_env 2, GuiCreate example_env 2]
      example_state))"
  by (simp add: eval_defs)

text \<open>
  Claim C3, as far as the code has it. Take any sequence of operations, started when
  the library is loaded, and let \<^verbatim>\<open>ftxui_clap_guiDestroyWith\<close> on an editor follow it
  (in particular a sequence in which the GUI of that editor was created). After the
  destroy the list of active editors does not hold the editor. If moreover
  \<^verbatim>\<open>ftxui_clap_guiCreateWith\<close> was never called on that editor while the registry of its
  context held a window record under its identifier, then after the destroy no registry
  holds a window record under the identifier of the editor: not the global registry, not
  the registry of any editor's context, and not the registry of any context left behind.
  What happened to other editors, re-creation included, does not matter.
\<close>

theorem destroy_removes_editor:
  "ed \<notin> set (g_active_editors (run tgt (ops @ [GuiDestroy ed]) (initial_state eds)))
   \<and> (no_recreate_of tgt ed ops (initial_state eds) \<longrightarrow>
        no_record (run tgt (ops @ [GuiDestroy ed]) (initial_state eds)) (editor_id ed))"
proof (intro conjI impI)
  have "live_registered (run tgt ops (initial_state eds))"
    using initial_live by (rule run_live)
  then show "ed \<notin> set (g_active_editors (run tgt (ops @ [GuiDestroy ed]) (initial_state eds)))"
    by (simp add: run_append destroyed_not_active)
next
  assume "no_recreate_of tgt ed ops (initial_state eds)"
  then have "registry_inv ed (run tgt ops (initial_state eds))"
    using initial_registry_inv by (rule run_registry_inv [rotated])
  then show "no_record (run tgt (ops @ [GuiDestroy ed]) (initial_state eds)) (editor_id ed)"
    by (simp add: run_append destroyed_no_record)
qed

theorem destroy_removes_editor_witness:
  "no_recreate_of Linux 2
     [GuiCreate example_env 2, GuiCreate example_env 2, GuiSetParent example_env 2 (Some 5),
      GuiCreate example_env 3, GuiSetParent example_env 3 (Some 5), GuiCreate example_env 3]
     (initial_state (\<lambda>ed. example_editor))
   \<and> \<not> no_recreate Linux
     [GuiCreate example_env 2, GuiCreate example_env 2, GuiSetParent example_env 2 (Some 5),
      GuiCreate example_env 3, GuiSetParent example_env 3 (Some 5), GuiCreate example_env 3]
     (initial_state (\<lambda>ed. example_editor))
   \<and> registry_record
       (terminal (the (ctx (editors (run Linux
          [GuiCreate example_env 2, GuiCreate example_env 2,
           GuiSetParent example_env 2 (Some 5), GuiCreate example_env 3,
           GuiSetParent example_env 3 (Some 5), GuiCreate example_env 3]
          (initial_state (\<lambda>ed. example_editor))) 2))))
       (editor_id 2)
       = Some \<lparr>content = [], platform_handle = 7, width = 640, height = 384,
               visible = False\<rparr>
   \<and> g_active_editors (run Linux
          [GuiCreate example_env 2, GuiCreate example_env 2,
           GuiSetParent example_env 2 (Some 5), GuiCreate example_env 3,
           GuiSetParent example_env 3 (Some 5), GuiCreate example_env 3]
          (initial_state (\<lambda>ed. example_editor))) = [2, 2, 3, 3]
   \<and> 2 \<notin> set (g_active_editors (run Linux
        ([GuiCreate example_env 2, GuiCreate example_env 2,
          GuiSetParent example_env 2 (Some 5), GuiCreate example_env 3,
          GuiSetParent example_env 3 (Some 5), GuiCreate example_env 3]
         @ [GuiDestroy 2])
        (initial_state (\<lambda>ed. example_editor))))
   \<and> no_record (run Linux
        ([GuiCreate example_env 2, GuiCreate example_env 2,
          GuiSetParent example_env 2 (Some 5), GuiCreate example_env 3,
          GuiSetParent example_env 3 (Some 5), GuiCreate example_env 3]
         @ [GuiDestroy 2])
        (initial_state (\<lambda>ed. example_editor))) (editor_id 2)"
proof -
  let ?ops = "[GuiCreate example_env 2, GuiCreate example_env 2,
     GuiSetParent example_env 2 (Some 5), GuiCreate example_env 3,
     GuiSetParent example_env 3 (Some 5), GuiCreate example_env 3]"
  have h: "no_recreate_of Linux 2 ?ops (initial_state (\<lambda>ed. example_editor))"
    by (simp add: eval_defs registry_record_def)
  have h': "\<not> no_recreate Linux ?ops (initial_state (\<lambda>ed. example_editor))"
    by (simp add: eval_defs)
  have before: "registry_record
       (terminal (the (ctx (editors (run Linux ?ops
          (initial_state (\<lambda>ed. example_editor))) 2))))
       (editor_id 2)
       = Some \<lparr>content = [], platform_handle = 7, width = 640, height = 384,
               visible = False\<rparr>"
    by (simp add: eval_defs registry_record_def editor_id_2 editor_id_3)
  have active: "g_active_editors (run Linux ?ops
          (initial_state (\<lambda>ed. example_editor))) = [2, 2, 3, 3]"
    by (simp add: eval_defs editor_id_2 editor_id_3)
  show ?thesis
    using h h' before active
      destroy_removes_editor [of 2 Linux ?ops "\<lambda>ed. example_editor"]
    by blast
qed

theorem destroy_after_recreate_counterexample:
  "map (map_option editors_map \<circ> terminal)
     (leaked (run Linux
        [GuiCreate example_env 2, GuiSetParent example_env 2 (Some 5),
         GuiCreate example_env 2, GuiDestroy 2] example_state))
     = [Some [(''2'', \<lparr>content = [], platform_handle = 7, width = 640, height = 384,
                       visible = False\<rparr>)]]
   \<and> \<not> no_record (run Linux
        [GuiCreate example_env 2, GuiSetParent example_env 2 (Some 5),
         GuiCreate example_env 2, GuiDestroy 2] example_state) (editor_id 2)
   \<and> XDestroyWindow 7 \<notin> set (native (platform (run Linux
        [GuiCreate example_env 2, GuiSetParent example_env 2 (Some 5),
         GuiCreate example_env 2, GuiDestroy 2] example_state)))
   \<and> \<not> no_recreate_of Linux 2
        [GuiCreate example_env 2, GuiSetParent example_env 2 (Some 5),
         GuiCreate example_env 2] example_state"
  by (simp add: eval_defs no_record_def registry_record_def editor_id_2)


end
